theory Spec2Isabelle
  imports Complex_Main "HOL-Library.Sublist"
begin

section \<open>Conventions of the embedding\<close>

text \<open>
  The program is Python. Its \<^verbatim>\<open>float\<close> values are modelled as exact reals (rounding is
  not modelled), its unbounded \<^verbatim>\<open>int\<close> values as \<^typ>\<open>int\<close>, its strings as \<^typ>\<open>string\<close>.
  Clock reads (\<^verbatim>\<open>datetime.now\<close>, \<^verbatim>\<open>time.time\<close>, \<^verbatim>\<open>time.monotonic\<close>) are explicit
  arguments, mutation of \<^verbatim>\<open>self\<close> is explicit state passing, and every exception that
  the modelled code can raise is a value of a sum type.
\<close>

text \<open>\<^verbatim>\<open>int(x)\<close> on a float truncates towards zero.\<close>

definition py_int :: "real \<Rightarrow> int" where
  "py_int x = (if 0 \<le> x then \<lfloor>x\<rfloor> else \<lceil>x\<rceil>)"

text \<open>
  A \<^verbatim>\<open>dict\<close> keeps its keys in insertion order: an association list with distinct
  keys. \<^verbatim>\<open>d[k] = v\<close> overwrites in place or appends, \<^verbatim>\<open>d.pop(k, None)\<close> removes the
  key when present, \<^verbatim>\<open>d.get(k, dflt)\<close> reads with a default.
\<close>

fun dict_set :: "('k \<times> 'v) list \<Rightarrow> 'k \<Rightarrow> 'v \<Rightarrow> ('k \<times> 'v) list" where
  "dict_set [] k v = [(k, v)]"
| "dict_set ((k', v') # d) k v = (if k' = k then (k, v) # d else (k', v') # dict_set d k v)"

fun dict_pop :: "('k \<times> 'v) list \<Rightarrow> 'k \<Rightarrow> ('k \<times> 'v) list" where
  "dict_pop [] k = []"
| "dict_pop ((k', v') # d) k = (if k' = k then d else (k', v') # dict_pop d k)"

definition dict_get :: "('k \<times> 'v) list \<Rightarrow> 'k \<Rightarrow> 'v \<Rightarrow> 'v" where
  "dict_get d k dflt = (case map_of d k of None \<Rightarrow> dflt | Some v \<Rightarrow> v)"

definition dict_values :: "('k \<times> 'v) list \<Rightarrow> 'v list" where
  "dict_values d = map snd d"

section \<open>Data models (src/api/models.py)\<close>

datatype OrderSide = YES | NO

datatype OrderAction = BUY | SELL

datatype OrderType = LIMIT | MARKET

text \<open>The \<^verbatim>\<open>.value\<close> of the string enums.\<close>

fun OrderSide_value :: "OrderSide \<Rightarrow> string" where
  "OrderSide_value YES = ''yes''"
| "OrderSide_value NO = ''no''"

fun OrderAction_value :: "OrderAction \<Rightarrow> string" where
  "OrderAction_value BUY = ''buy''"
| "OrderAction_value SELL = ''sell''"

fun OrderType_value :: "OrderType \<Rightarrow> string" where
  "OrderType_value LIMIT = ''limit''"
| "OrderType_value MARKET = ''market''"

text \<open>
  \<^verbatim>\<open>TradeSignal\<close>. The \<^verbatim>\<open>timestamp\<close> field (creation time, read by nothing modelled
  here) is left out.
\<close>

record TradeSignal =
  ticker :: string
  side :: OrderSide
  action :: OrderAction
  confidence :: real
  estimated_probability :: real
  market_probability :: real
  expected_value :: real
  strategy_name :: string
  reasoning :: string
  suggested_price :: "int option"
  suggested_count :: "int option"

text \<open>
  \<^verbatim>\<open>OrderRequest\<close>. The fields \<^verbatim>\<open>ticker\<close>, \<^verbatim>\<open>side\<close> and \<^verbatim>\<open>action\<close> carry the prefix
  \<open>order_\<close>, since a signal has fields of the same names.
\<close>

record OrderRequest =
  order_ticker :: string
  order_side :: OrderSide
  order_action :: OrderAction
  count :: int
  order_type :: OrderType
  yes_price :: "int option"
  no_price :: "int option"
  client_order_id :: string
  time_in_force :: string
  buy_max_cost :: "int option"
  post_only :: bool

text \<open>JSON values, as request payloads and response bodies hold them.\<close>

datatype json = JNull | JBool bool | JInt int | JStr string | JList "json list"
  | JDict "(string \<times> json) list"

text \<open>
  \<^verbatim>\<open>OrderRequest.to_api_payload\<close>: the five mandatory keys, then each optional key
  only when its field is set (not \<^verbatim>\<open>None\<close>, a non-empty string, a true flag).
\<close>

definition to_api_payload :: "OrderRequest \<Rightarrow> (string \<times> json) list" where
  "to_api_payload self =
     (let payload = [(''ticker'', JStr (order_ticker self)),
                     (''side'', JStr (OrderSide_value (order_side self))),
                     (''action'', JStr (OrderAction_value (order_action self))),
                     (''count'', JInt (count self)),
                     (''type'', JStr (OrderType_value (order_type self)))];
          payload = (case yes_price self of None \<Rightarrow> payload
                     | Some p \<Rightarrow> dict_set payload ''yes_price'' (JInt p));
          payload = (case no_price self of None \<Rightarrow> payload
                     | Some p \<Rightarrow> dict_set payload ''no_price'' (JInt p));
          payload = (if client_order_id self \<noteq> [] then
                       dict_set payload ''client_order_id'' (JStr (client_order_id self))
                     else payload);
          payload = (if time_in_force self \<noteq> [] then
                       dict_set payload ''time_in_force'' (JStr (time_in_force self))
                     else payload);
          payload = (case buy_max_cost self of None \<Rightarrow> payload
                     | Some c \<Rightarrow> dict_set payload ''buy_max_cost'' (JInt c));
          payload = (if post_only self then dict_set payload ''post_only'' (JBool True)
                     else payload)
      in payload)"

section \<open>Risk management (src/risk/manager.py)\<close>

subsection \<open>The daily ledger\<close>

record DailyPnL =
  date :: string
  realized_pnl :: real
  unrealized_pnl :: real
  trades_count :: int
  wins :: int
  losses :: int

text \<open>\<^verbatim>\<open>DailyPnL(date=d)\<close>: every other field takes its default.\<close>

definition DailyPnL_new :: "string \<Rightarrow> DailyPnL" where
  "DailyPnL_new d =
     \<lparr>date = d, realized_pnl = 0, unrealized_pnl = 0, trades_count = 0, wins = 0, losses = 0\<rparr>"

definition total_pnl :: "DailyPnL \<Rightarrow> real" where
  "total_pnl self = realized_pnl self + unrealized_pnl self"

definition win_rate :: "DailyPnL \<Rightarrow> real" where
  "win_rate self =
     (if trades_count self = 0 then 0 else real_of_int (wins self) / real_of_int (trades_count self))"

subsection \<open>The manager's state\<close>

text \<open>One entry of \<^verbatim>\<open>_trades_today\<close>.\<close>

record TradeEntry =
  entry_ticker :: string
  entry_cost :: real
  entry_pnl :: real
  entry_time :: string

record RiskManager =
  max_daily_loss :: real
  max_position_size :: int
  max_trade_cost :: real
  max_portfolio_exposure_pct :: real
  kelly_fraction :: real
  daily_pnl :: DailyPnL
  open_positions :: "(string \<times> real) list"
  trades_today :: "TradeEntry list"

text \<open>
  \<^verbatim>\<open>RiskManager.__init__\<close>; \<open>today\<close> is what \<^verbatim>\<open>self._today()\<close> returns at construction,
  the UTC date as \<^verbatim>\<open>%Y-%m-%d\<close>.
\<close>

definition RiskManager_init :: "string \<Rightarrow> real \<Rightarrow> int \<Rightarrow> real \<Rightarrow> real \<Rightarrow> real \<Rightarrow> RiskManager" where
  "RiskManager_init today mdl mps mtc mpe kf =
     \<lparr>max_daily_loss = mdl, max_position_size = mps, max_trade_cost = mtc,
      max_portfolio_exposure_pct = mpe, kelly_fraction = kf,
      daily_pnl = DailyPnL_new today, open_positions = [], trades_today = []\<rparr>"

text \<open>\<^verbatim>\<open>_reset_daily_if_needed\<close>, with the date read from the clock as \<open>today\<close>.\<close>

definition reset_daily_if_needed :: "string \<Rightarrow> RiskManager \<Rightarrow> RiskManager" where
  "reset_daily_if_needed today self =
     (if date (daily_pnl self) \<noteq> today then
        self\<lparr>daily_pnl := DailyPnL_new today, trades_today := []\<rparr>
      else self)"

subsection \<open>Kelly criterion and position sizing\<close>

definition kelly_criterion :: "RiskManager \<Rightarrow> real \<Rightarrow> real \<Rightarrow> real" where
  "kelly_criterion self probability odds_decimal =
     (if probability \<le> 0 \<or> probability \<ge> 1 \<or> odds_decimal \<le> 0 then 0
      else
        let q = 1 - probability;
            kelly = (probability * odds_decimal - q) / odds_decimal
        in max 0 kelly * kelly_fraction self)"

text \<open>
  \<^verbatim>\<open>calculate_position_size\<close> returns the manager after the lazy rollover together
  with the size.
\<close>

definition calculate_position_size ::
  "string \<Rightarrow> RiskManager \<Rightarrow> TradeSignal \<Rightarrow> real \<Rightarrow> int \<Rightarrow> RiskManager \<times> int" where
  "calculate_position_size today self0 signal balance cost_per_contract_cents =
     (let self = reset_daily_if_needed today self0 in
      if cost_per_contract_cents \<le> 0 \<or> balance \<le> 0 then (self, 0)
      else
        let cost_per_contract = real_of_int cost_per_contract_cents / 100;
            payout = 1;
            profit_if_win = payout - cost_per_contract
        in
        if profit_if_win \<le> 0 then (self, 0)
        else
          let odds = profit_if_win / cost_per_contract;
              kelly_frac = kelly_criterion self (estimated_probability signal) odds;
              kelly_amount = balance * kelly_frac;
              max_from_kelly =
                (if cost_per_contract > 0 then py_int (kelly_amount / cost_per_contract) else 0);
              max_from_position = max_position_size self;
              max_from_cost =
                (if cost_per_contract > 0 then py_int (max_trade_cost self / cost_per_contract)
                 else 0);
              current_exposure = sum_list (dict_values (open_positions self));
              max_exposure = balance * (max_portfolio_exposure_pct self / 100);
              remaining_exposure = max 0 (max_exposure - current_exposure);
              max_from_exposure =
                (if cost_per_contract > 0 then py_int (remaining_exposure / cost_per_contract)
                 else 0);
              remaining_daily =
                max 0 (max_daily_loss self - \<bar>min 0 (total_pnl (daily_pnl self))\<bar>);
              max_from_daily =
                (if cost_per_contract > 0 then py_int (remaining_daily / cost_per_contract)
                 else 0);
              size = min max_from_kelly
                       (min max_from_position
                         (min max_from_cost (min max_from_exposure max_from_daily)));
              size = max 0 size
          in (self, size))"

subsection \<open>Trade validation\<close>

text \<open>
  The \<^verbatim>\<open>format\<close> specifications the reasons use. How Python renders a float under
  each of them is a parameter \<open>fmt\<close> of the model.
\<close>

datatype float_format = F2 | F4 | Plain

definition validate_trade ::
  "(float_format \<Rightarrow> real \<Rightarrow> string) \<Rightarrow> string \<Rightarrow> RiskManager \<Rightarrow> TradeSignal \<Rightarrow> real
     \<Rightarrow> real \<Rightarrow> real \<Rightarrow> RiskManager \<times> bool \<times> string" where
  "validate_trade fmt today self0 signal balance min_confidence min_ev =
     (let self = reset_daily_if_needed today self0 in
      if total_pnl (daily_pnl self) \<le> - max_daily_loss self then
        (self, False,
         ''Daily loss limit reached ($'' @ fmt F2 (total_pnl (daily_pnl self)) @ '')'')
      else if confidence signal < min_confidence then
        (self, False,
         ''Confidence too low ('' @ fmt F2 (confidence signal) @ '' < ''
           @ fmt Plain min_confidence @ '')'')
      else if expected_value signal < min_ev then
        (self, False,
         ''Expected value too low ('' @ fmt F4 (expected_value signal) @ '' < ''
           @ fmt Plain min_ev @ '')'')
      else if balance \<le> 0 then (self, False, ''Insufficient balance'')
      else
        let current_exposure = sum_list (dict_values (open_positions self));
            max_exposure = balance * (max_portfolio_exposure_pct self / 100)
        in
        if current_exposure \<ge> max_exposure then
          (self, False,
           ''Portfolio exposure limit reached ($'' @ fmt F2 current_exposure @ '' >= $''
             @ fmt F2 max_exposure @ '')'')
        else (self, True, ''Trade approved''))"

subsection \<open>Order construction\<close>

text \<open>
  The cost per contract in cents that \<^verbatim>\<open>build_order\<close> derives. Python's \<^verbatim>\<open>a or b\<close>
  takes \<open>b\<close> when \<open>a\<close> is \<^verbatim>\<open>None\<close> or \<open>0\<close>.
\<close>

definition py_or :: "int option \<Rightarrow> int \<Rightarrow> int" where
  "py_or a b = (case a of None \<Rightarrow> b | Some v \<Rightarrow> (if v = 0 then b else v))"

definition cost_cents_of :: "TradeSignal \<Rightarrow> int" where
  "cost_cents_of signal =
     (if side signal = YES then
        py_or (suggested_price signal) (py_int (market_probability signal * 100))
      else
        py_or (suggested_price signal) (py_int ((1 - market_probability signal) * 100)))"

definition build_order ::
  "string \<Rightarrow> RiskManager \<Rightarrow> TradeSignal \<Rightarrow> real \<Rightarrow> RiskManager \<times> OrderRequest option" where
  "build_order today self signal balance =
     (let cost_cents = cost_cents_of signal in
      if cost_cents \<le> 0 \<or> cost_cents \<ge> 100 then (self, None)
      else
        let (self1, cnt) = calculate_position_size today self signal balance cost_cents in
        if cnt \<le> 0 then (self1, None)
        else
          (self1,
           Some \<lparr>order_ticker = ticker signal,
                 order_side = side signal,
                 order_action = action signal,
                 count = cnt,
                 order_type = LIMIT,
                 yes_price = (if side signal = YES then Some cost_cents else None),
                 no_price = (if side signal = NO then Some cost_cents else None),
                 client_order_id = '''',
                 time_in_force = ''gtc'',
                 buy_max_cost = None,
                 post_only = True\<rparr>))"

subsection \<open>Position tracking\<close>

text \<open>
  \<^verbatim>\<open>record_trade\<close>; \<open>now_iso\<close> is the second clock read, the ISO timestamp stored with
  the trade.
\<close>

definition record_trade ::
  "string \<Rightarrow> string \<Rightarrow> RiskManager \<Rightarrow> string \<Rightarrow> real \<Rightarrow> real \<Rightarrow> RiskManager" where
  "record_trade today now_iso self0 tkr cost_dollars pnl =
     (let self = reset_daily_if_needed today self0;
          d = daily_pnl self;
          d = d\<lparr>trades_count := trades_count d + 1\<rparr>;
          d = d\<lparr>realized_pnl := realized_pnl d + pnl\<rparr>;
          d = (if pnl > 0 then d\<lparr>wins := wins d + 1\<rparr>
               else if pnl < 0 then d\<lparr>losses := losses d + 1\<rparr>
               else d)
      in self\<lparr>daily_pnl := d,
              open_positions :=
                dict_set (open_positions self) tkr
                  (dict_get (open_positions self) tkr 0 + cost_dollars),
              trades_today :=
                trades_today self @
                  [\<lparr>entry_ticker = tkr, entry_cost = cost_dollars, entry_pnl = pnl,
                    entry_time = now_iso\<rparr>]\<rparr>)"

definition update_position :: "RiskManager \<Rightarrow> string \<Rightarrow> real \<Rightarrow> RiskManager" where
  "update_position self tkr exposure_dollars =
     (if exposure_dollars \<le> 0 then
        self\<lparr>open_positions := dict_pop (open_positions self) tkr\<rparr>
      else self\<lparr>open_positions := dict_set (open_positions self) tkr exposure_dollars\<rparr>)"

text \<open>The dictionary \<^verbatim>\<open>get_daily_summary\<close> returns, one field per key.\<close>

record DailySummary =
  summary_date :: string
  summary_realized_pnl :: real
  summary_trades_count :: int
  summary_win_rate :: real
  total_exposure :: real
  summary_open_positions :: int
  remaining_daily_loss_budget :: real

definition get_daily_summary :: "string \<Rightarrow> RiskManager \<Rightarrow> RiskManager \<times> DailySummary" where
  "get_daily_summary today self0 =
     (let self = reset_daily_if_needed today self0 in
      (self,
       \<lparr>summary_date = date (daily_pnl self),
        summary_realized_pnl = realized_pnl (daily_pnl self),
        summary_trades_count = trades_count (daily_pnl self),
        summary_win_rate = win_rate (daily_pnl self),
        total_exposure = sum_list (dict_values (open_positions self)),
        summary_open_positions = int (length (open_positions self)),
        remaining_daily_loss_budget = max_daily_loss self + total_pnl (daily_pnl self)\<rparr>))"


subsection \<open>Operations as data\<close>

text \<open>
  The calls a client of the manager can make, each with the clock reads it performs, so
  that sequences of calls can be run. \<^verbatim>\<open>kelly_criterion\<close> reads the configuration only
  and is not listed.
\<close>

datatype rm_op =
    CalcSize string TradeSignal real int
  | Validate string TradeSignal real real real
  | Build string TradeSignal real
  | RecordTrade string string string real real
  | UpdatePosition string real
  | Summary string

fun rm_step :: "(float_format \<Rightarrow> real \<Rightarrow> string) \<Rightarrow> RiskManager \<Rightarrow> rm_op \<Rightarrow> RiskManager" where
  "rm_step fmt self (CalcSize today signal balance cents) =
     fst (calculate_position_size today self signal balance cents)"
| "rm_step fmt self (Validate today signal balance min_confidence min_ev) =
     fst (validate_trade fmt today self signal balance min_confidence min_ev)"
| "rm_step fmt self (Build today signal balance) = fst (build_order today self signal balance)"
| "rm_step fmt self (RecordTrade today now_iso tkr cost_dollars pnl) =
     record_trade today now_iso self tkr cost_dollars pnl"
| "rm_step fmt self (UpdatePosition tkr exposure_dollars) =
     update_position self tkr exposure_dollars"
| "rm_step fmt self (Summary today) = fst (get_daily_summary today self)"

text \<open>
  The date with which a call reaches \<^verbatim>\<open>_reset_daily_if_needed\<close>, if it does:
  \<^verbatim>\<open>build_order\<close> gets there only through \<^verbatim>\<open>calculate_position_size\<close>, after its price
  check, and \<^verbatim>\<open>update_position\<close> never does.
\<close>

fun access_date :: "rm_op \<Rightarrow> string option" where
  "access_date (CalcSize today signal balance cents) = Some today"
| "access_date (Validate today signal balance min_confidence min_ev) = Some today"
| "access_date (Build today signal balance) =
     (if cost_cents_of signal \<le> 0 \<or> cost_cents_of signal \<ge> 100 then None else Some today)"
| "access_date (RecordTrade today now_iso tkr cost_dollars pnl) = Some today"
| "access_date (UpdatePosition tkr exposure_dollars) = None"
| "access_date (Summary today) = Some today"

text \<open>How often the reset branch of \<^verbatim>\<open>_reset_daily_if_needed\<close> runs during a sequence of calls.\<close>

fun rollovers :: "(float_format \<Rightarrow> real \<Rightarrow> string) \<Rightarrow> RiskManager \<Rightarrow> rm_op list \<Rightarrow> nat" where
  "rollovers fmt self [] = 0"
| "rollovers fmt self (op # ops) =
     (case access_date op of
        None \<Rightarrow> 0
      | Some today \<Rightarrow> (if date (daily_pnl self) \<noteq> today then 1 else 0))
     + rollovers fmt (rm_step fmt self op) ops"

subsection \<open>The configuration and signal of the test suite\<close>

definition rm_example :: RiskManager where
  "rm_example = RiskManager_init ''2026-02-11'' 50 100 25 20 (1/2)"

definition signal_example :: TradeSignal where
  "signal_example =
     \<lparr>ticker = ''TEST'', side = YES, action = BUY, confidence = 8/10,
      estimated_probability = 7/10, market_probability = 1/2, expected_value = 15/100,
      strategy_name = ''Test'', reasoning = ''Test'', suggested_price = None,
      suggested_count = None\<rparr>"


section \<open>The API client (src/api/client.py, src/api/auth.py)\<close>

subsection \<open>Exceptions and the clock\<close>

text \<open>
  The exceptions the modelled code raises or lets through. \<open>KalshiAPIError\<close> carries
  the status code, the message and the response body; \<open>ConnectionError\<close> and \<open>Timeout\<close>
  are the two exceptions of the HTTP library that \<^verbatim>\<open>_request\<close> catches; \<open>OtherError\<close> is any
  other exception of a collaborator.
\<close>

datatype exn =
    KalshiAPIError int json "(string \<times> json) list"
  | ConnectionError string
  | Timeout string
  | JSONDecodeError
  | ZeroDivisionError
  | ValueError
  | OtherError string

text \<open>
  The two clocks the client reads: \<^verbatim>\<open>time.monotonic()\<close> and \<^verbatim>\<open>time.time()\<close>, in seconds.
  \<^verbatim>\<open>time.sleep(d)\<close> raises \<open>ValueError\<close> on a negative \<open>d\<close> and otherwise advances
  both clocks by \<open>d\<close>; the model lets no other time pass.
\<close>

record Clock =
  monotonic :: real
  wall :: real

definition sleep :: "real \<Rightarrow> Clock \<Rightarrow> exn + Clock" where
  "sleep d clk =
     (if d < 0 then Inl ValueError
      else Inr (clk\<lparr>monotonic := monotonic clk + d, wall := wall clk + d\<rparr>))"

subsection \<open>The token bucket\<close>

record RateLimiter =
  max_per_second :: int
  tokens :: real
  last_refill :: real

definition RateLimiter_init :: "real \<Rightarrow> int \<Rightarrow> RateLimiter" where
  "RateLimiter_init now n = \<lparr>max_per_second = n, tokens = real_of_int n, last_refill = now\<rparr>"

text \<open>The refill at the head of each poll of \<^verbatim>\<open>acquire\<close>.\<close>

definition refill :: "RateLimiter \<Rightarrow> real \<Rightarrow> RateLimiter" where
  "refill self now =
     (let elapsed = now - last_refill self in
      self\<lparr>tokens := min (real_of_int (max_per_second self))
                        (tokens self + elapsed * real_of_int (max_per_second self)),
            last_refill := now\<rparr>)"

text \<open>
  \<^verbatim>\<open>RateLimiter.acquire\<close>: the \<^verbatim>\<open>while True\<close> loop, from the monotonic clock \<open>now\<close> and with
  the durations slept so far. It returns the bucket, the clock at return and the
  durations slept, or the exception that ends it (a division by a zero rate, a sleep
  of negative length) with the bucket as the last poll left it.
\<close>

function acquire ::
  "RateLimiter \<Rightarrow> real \<Rightarrow> real list \<Rightarrow> exn \<times> RateLimiter + RateLimiter \<times> real \<times> real list" where
  "acquire self now slept =
     (if tokens (refill self now) \<ge> 1 then
        Inr ((refill self now)\<lparr>tokens := tokens (refill self now) - 1\<rparr>, now, slept)
      else if max_per_second self = 0 then Inl (ZeroDivisionError, refill self now)
      else if (1 - tokens (refill self now)) / real_of_int (max_per_second self) < 0 then
        Inl (ValueError, refill self now)
      else
        acquire (refill self now)
          (now + (1 - tokens (refill self now)) / real_of_int (max_per_second self))
          (slept @ [(1 - tokens (refill self now)) / real_of_int (max_per_second self)]))"
  by pat_completeness auto

text \<open>
  The loop ends: a poll that sleeps has a positive rate, and the sleep it computes
  refills the bucket to one token, so the next poll returns.
\<close>

termination acquire
proof (relation "measure (\<lambda>(self, now, slept). if tokens (refill self now) \<ge> 1 then 0 else 1)")
  show "wf (measure (\<lambda>(self, now, slept). if tokens (refill self now) \<ge> 1 then 0 else (1::nat)))"
    by simp
next
  fix self :: RateLimiter and now :: real and slept :: "real list"
  let ?n = "real_of_int (max_per_second self)"
  let ?t = "tokens (refill self now)"
  assume a: "\<not> 1 \<le> ?t" "max_per_second self \<noteq> 0" "\<not> (1 - ?t) / ?n < 0"
  have "0 < 1 - ?t" using a(1) by simp
  then have npos: "0 < ?n" using a(2,3)
    by (metis divide_less_0_iff not_less_iff_gr_or_eq of_int_eq_0_iff)
  then have "1 \<le> max_per_second self" by simp
  then have n1: "1 \<le> ?n" by simp
  have "(1 - ?t) / ?n * ?n = 1 - ?t" using npos by simp
  then have "1 \<le> tokens (refill (refill self now) (now + (1 - ?t) / ?n))"
    using n1 by (simp add: refill_def Let_def)
  then show "((refill self now, now + (1 - ?t) / ?n, slept @ [(1 - ?t) / ?n]), (self, now, slept))
      \<in> measure (\<lambda>(self, now, slept). if tokens (refill self now) \<ge> 1 then 0 else 1)"
    using a(1) by simp
qed

declare acquire.simps [simp del]


subsection \<open>Request signing (src/api/auth.py)\<close>

text \<open>\<^verbatim>\<open>str\<close> of an integer, and \<^verbatim>\<open>str.upper\<close> on ASCII letters.\<close>

definition digit_char :: "nat \<Rightarrow> char" where
  "digit_char d = ''0123456789'' ! d"

fun str_nat :: "nat \<Rightarrow> string" where
  "str_nat n = (if n < 10 then [digit_char n] else str_nat (n div 10) @ [digit_char (n mod 10)])"

declare str_nat.simps [simp del]

definition str_int :: "int \<Rightarrow> string" where
  "str_int i = (if i < 0 then CHR ''-'' # str_nat (nat (- i)) else str_nat (nat i))"

definition upper_char :: "char \<Rightarrow> char" where
  "upper_char c =
     (let n = (of_char c :: nat) in if 97 \<le> n \<and> n \<le> 122 then char_of (n - 32) else c)"

definition upper :: "string \<Rightarrow> string" where
  "upper s = map upper_char s"

text \<open>
  \<^verbatim>\<open>sign_request\<close>. The RSA-PSS signature over SHA-256, base64-encoded, is a parameter
  \<open>pss\<close> of the private key, the salt the padding draws, and the message.
\<close>

definition sign_request ::
  "('key \<Rightarrow> 'salt \<Rightarrow> string \<Rightarrow> string) \<Rightarrow> 'salt \<Rightarrow> 'key \<Rightarrow> string \<Rightarrow> string \<Rightarrow> string \<Rightarrow> string" where
  "sign_request pss salt private_key timestamp_ms method path =
     (let path_without_query = takeWhile (\<lambda>c. c \<noteq> CHR ''?'') path;
          message = timestamp_ms @ method @ path_without_query
      in pss private_key salt message)"

text \<open>\<^verbatim>\<open>get_auth_headers\<close>, with the wall clock \<open>now\<close> that \<^verbatim>\<open>time.time()\<close> returns.\<close>

definition get_auth_headers ::
  "('key \<Rightarrow> 'salt \<Rightarrow> string \<Rightarrow> string) \<Rightarrow> 'salt \<Rightarrow> real \<Rightarrow> string \<Rightarrow> 'key \<Rightarrow> string \<Rightarrow> string
     \<Rightarrow> (string \<times> string) list" where
  "get_auth_headers pss salt now key_id private_key method path =
     (let timestamp_ms = str_int (py_int (now * 1000));
          signature = sign_request pss salt private_key timestamp_ms (upper method) path
      in [(''KALSHI-ACCESS-KEY'', key_id),
          (''KALSHI-ACCESS-SIGNATURE'', signature),
          (''KALSHI-ACCESS-TIMESTAMP'', timestamp_ms),
          (''Content-Type'', ''application/json'')])"

subsection \<open>The transport\<close>

record 'key KalshiClient =
  api_key :: string
  base_url :: string
  private_key :: "'key option"
  read_limiter :: RateLimiter
  write_limiter :: RateLimiter
  max_retries :: nat
  base_backoff :: real

text \<open>
  \<^verbatim>\<open>KalshiClient.__init__\<close>, with the key already loaded and the monotonic clock \<open>now\<close>
  that the two limiters read.
\<close>

definition KalshiClient_init ::
  "real \<Rightarrow> string \<Rightarrow> 'key option \<Rightarrow> string \<Rightarrow> int \<Rightarrow> int \<Rightarrow> 'key KalshiClient" where
  "KalshiClient_init now key_id key url read_rate write_rate =
     \<lparr>api_key = key_id,
      base_url = rev (dropWhile (\<lambda>c. c = CHR ''/'') (rev url)),
      private_key = key,
      read_limiter = RateLimiter_init now read_rate,
      write_limiter = RateLimiter_init now write_rate,
      max_retries = 3,
      base_backoff = 1/2\<rparr>"

text \<open>
  What the HTTP library answers to one attempt: a response, or an exception. Of a
  response the client reads the status code, the body as \<^verbatim>\<open>response.json()\<close> parses it
  (\<open>None\<close> when parsing raises; the bodies of this API are JSON objects, as the
  annotations \<^verbatim>\<open>-> dict\<close> and \<^verbatim>\<open>response_body: dict\<close> of the source declare) and the text.
\<close>

record HttpResponse =
  status_code :: int
  json_body :: "(string \<times> json) list option"
  text_body :: string

datatype outcome =
    Responds HttpResponse
  | RaisesConnectionError string
  | RaisesTimeout string
  | RaisesOther string

text \<open>
  What \<^verbatim>\<open>session.request\<close> is called with at one attempt (query parameters and JSON
  body pass through unchanged and are left out), and the clock at the call.
\<close>

record Sent =
  sent_attempt :: nat
  sent_clock :: Clock
  sent_method :: string
  sent_url :: string
  sent_headers :: "(string \<times> string) list"

text \<open>The attempts made, the back-off sleeps taken between them, and the clock.\<close>

record Transcript =
  sends :: "Sent list"
  sleeps :: "real list"
  clock :: Clock

text \<open>
  The retry loop of \<^verbatim>\<open>_request\<close>: \<^verbatim>\<open>for attempt in range(self._max_retries)\<close> over the
  attempts still to make, with \<open>srv attempt\<close> the answer to each, and the \<^verbatim>\<open>raise\<close> after
  the loop.
\<close>

fun retry_loop ::
  "real \<Rightarrow> (nat \<Rightarrow> outcome) \<Rightarrow> string \<Rightarrow> string \<Rightarrow> (string \<times> string) list \<Rightarrow> nat list \<Rightarrow> exn option
     \<Rightarrow> Transcript \<Rightarrow> (exn + (string \<times> json) list) \<times> Transcript" where
  "retry_loop base srv method url headers [] last_exception tr =
     (Inl (case last_exception of
             Some e \<Rightarrow> e
           | None \<Rightarrow> KalshiAPIError 0 (JStr ''Max retries exceeded'') []), tr)"
| "retry_loop base srv method url headers (attempt # rest) last_exception tr =
     (let tr1 = tr\<lparr>sends := sends tr @
                   [\<lparr>sent_attempt = attempt, sent_clock = clock tr, sent_method = method,
                     sent_url = url, sent_headers = headers\<rparr>]\<rparr>;
          wait = base * 2 ^ attempt
      in
      case srv attempt of
        Responds response \<Rightarrow>
          if status_code response = 429 then
            (case sleep wait (clock tr1) of
               Inl e \<Rightarrow> (Inl e, tr1)
             | Inr clk \<Rightarrow>
                 retry_loop base srv method url headers rest last_exception
                   (tr1\<lparr>sleeps := sleeps tr1 @ [wait], clock := clk\<rparr>))
          else if status_code response \<ge> 400 then
            (let body = (case json_body response of None \<Rightarrow> [] | Some b \<Rightarrow> b) in
             (Inl (KalshiAPIError (status_code response)
                     (dict_get body ''message'' (JStr (take 200 (text_body response)))) body),
              tr1))
          else if status_code response = 204 then (Inr [], tr1)
          else
            (case json_body response of
               None \<Rightarrow> (Inl JSONDecodeError, tr1)
             | Some b \<Rightarrow> (Inr b, tr1))
      | RaisesConnectionError m \<Rightarrow>
          (case sleep wait (clock tr1) of
             Inl e \<Rightarrow> (Inl e, tr1)
           | Inr clk \<Rightarrow>
               retry_loop base srv method url headers rest (Some (ConnectionError m))
                 (tr1\<lparr>sleeps := sleeps tr1 @ [wait], clock := clk\<rparr>))
      | RaisesTimeout m \<Rightarrow>
          (case sleep wait (clock tr1) of
             Inl e \<Rightarrow> (Inl e, tr1)
           | Inr clk \<Rightarrow>
               retry_loop base srv method url headers rest (Some (Timeout m))
                 (tr1\<lparr>sleeps := sleeps tr1 @ [wait], clock := clk\<rparr>))
      | RaisesOther m \<Rightarrow> (Inl (OtherError m), tr1))"

text \<open>
  \<^verbatim>\<open>KalshiClient._request\<close>: the limiter of the method's class, the headers, then the
  retry loop. \<open>salt\<close> is what the one signature of the call draws.
\<close>

definition request ::
  "('key \<Rightarrow> 'salt \<Rightarrow> string \<Rightarrow> string) \<Rightarrow> 'salt \<Rightarrow> (nat \<Rightarrow> outcome) \<Rightarrow> Clock \<Rightarrow> 'key KalshiClient
     \<Rightarrow> string \<Rightarrow> string \<Rightarrow> bool
     \<Rightarrow> 'key KalshiClient \<times> (exn + (string \<times> json) list) \<times> Transcript" where
  "request pss salt srv clk self method path authenticated =
     (let url = base_url self @ path;
          is_write = (upper method \<in> set [''POST'', ''PUT'', ''DELETE'', ''PATCH''])
      in
      case acquire (if is_write then write_limiter self else read_limiter self)
             (monotonic clk) [] of
        Inl (e, limiter) \<Rightarrow>
          ((if is_write then self\<lparr>write_limiter := limiter\<rparr>
            else self\<lparr>read_limiter := limiter\<rparr>),
           Inl e, \<lparr>sends = [], sleeps = [], clock = clk\<rparr>)
      | Inr (limiter, now, slept) \<Rightarrow>
          let self1 = (if is_write then self\<lparr>write_limiter := limiter\<rparr>
                       else self\<lparr>read_limiter := limiter\<rparr>);
              clk1 = clk\<lparr>monotonic := now, wall := wall clk + (now - monotonic clk)\<rparr>;
              headers =
                (case private_key self of
                   Some key \<Rightarrow>
                     if authenticated then
                       get_auth_headers pss salt (wall clk1) (api_key self) key (upper method)
                         (''/trade-api/v2'' @ path)
                     else [(''Content-Type'', ''application/json'')]
                 | None \<Rightarrow> [(''Content-Type'', ''application/json'')]);
              (res, tr) =
                retry_loop (base_backoff self) srv (upper method) url headers
                  [0..<max_retries self] None \<lparr>sends = [], sleeps = [], clock = clk1\<rparr>
          in (self1, res, tr))"


section \<open>The trading cycle (main.py)\<close>

text \<open>The settings \<^verbatim>\<open>run_trading_cycle\<close> reads.\<close>

record Settings =
  min_confidence :: real
  min_expected_value :: real
  dry_run :: bool

text \<open>
  What the collaborators answer during one cycle: the exchange-status call, the
  \<open>k\<close>-th balance call, \<^verbatim>\<open>strategy.run()\<close> of each strategy in order, the \<open>k\<close>-th order
  submission, and the clock the risk manager reads (one reading per cycle).
\<close>

record CycleEnv =
  exchange_status :: "exn + (string \<times> json) list"
  balance_call :: "nat \<Rightarrow> exn + real"
  strategy_runs :: "(exn + TradeSignal list) list"
  order_call :: "nat \<Rightarrow> OrderRequest \<Rightarrow> exn + (string \<times> json) list"
  utc_date :: string
  utc_iso :: string

text \<open>Python's truth value of a JSON value, and \<^verbatim>\<open>except KalshiAPIError\<close>.\<close>

fun truthy :: "json \<Rightarrow> bool" where
  "truthy JNull = False"
| "truthy (JBool b) = b"
| "truthy (JInt i) = (i \<noteq> 0)"
| "truthy (JStr s) = (s \<noteq> [])"
| "truthy (JList l) = (l \<noteq> [])"
| "truthy (JDict d) = (d \<noteq> [])"

fun is_KalshiAPIError :: "exn \<Rightarrow> bool" where
  "is_KalshiAPIError (KalshiAPIError c m b) = True"
| "is_KalshiAPIError e = False"

text \<open>
  The variables of the cycle that the signal loop updates: the risk manager, the
  balance, the trade counter, how many order and balance calls were made, and the calls
  made to the risk manager.
\<close>

record CycleState =
  cs_risk_manager :: RiskManager
  cs_balance :: real
  cs_trades_executed :: nat
  cs_order_calls :: nat
  cs_balance_calls :: nat
  cs_rm_calls :: "rm_op list"

text \<open>
  Steps 4 and 5 of \<^verbatim>\<open>run_trading_cycle\<close>, the loop over the sorted signals. The first
  component is the exception that leaves the loop, if one does.
\<close>

fun process_signals ::
  "(float_format \<Rightarrow> real \<Rightarrow> string) \<Rightarrow> CycleEnv \<Rightarrow> Settings \<Rightarrow> bool \<Rightarrow> TradeSignal list
     \<Rightarrow> CycleState \<Rightarrow> exn option \<times> CycleState" where
  "process_signals fmt env settings scan_only [] st = (None, st)"
| "process_signals fmt env settings scan_only (signal # rest) st =
     (if scan_only then
        process_signals fmt env settings scan_only rest
          (st\<lparr>cs_trades_executed := cs_trades_executed st + 1\<rparr>)
      else
        let (rm1, is_valid, reason) =
              validate_trade fmt (utc_date env) (cs_risk_manager st) signal (cs_balance st)
                (min_confidence settings) (min_expected_value settings);
            st1 = st\<lparr>cs_risk_manager := rm1,
                      cs_rm_calls := cs_rm_calls st @
                        [Validate (utc_date env) signal (cs_balance st)
                           (min_confidence settings) (min_expected_value settings)]\<rparr>
        in
        if \<not> is_valid then process_signals fmt env settings scan_only rest st1
        else
          let (rm2, order) = build_order (utc_date env) rm1 signal (cs_balance st);
              st2 = st1\<lparr>cs_risk_manager := rm2,
                         cs_rm_calls := cs_rm_calls st1 @
                           [Build (utc_date env) signal (cs_balance st)]\<rparr>
          in
          case order of
            None \<Rightarrow> process_signals fmt env settings scan_only rest st2
          | Some ord \<Rightarrow>
              if dry_run settings then
                process_signals fmt env settings scan_only rest
                  (st2\<lparr>cs_trades_executed := cs_trades_executed st2 + 1\<rparr>)
              else
                (case order_call env (cs_order_calls st2) ord of
                   Inl e \<Rightarrow>
                     if is_KalshiAPIError e then
                       process_signals fmt env settings scan_only rest
                         (st2\<lparr>cs_order_calls := cs_order_calls st2 + 1\<rparr>)
                     else (Some e, st2\<lparr>cs_order_calls := cs_order_calls st2 + 1\<rparr>)
                 | Inr result \<Rightarrow>
                     let cost = real_of_int (py_or (yes_price ord) (py_or (no_price ord) 0)
                                  * count ord) / 100;
                         st3 = st2\<lparr>cs_risk_manager :=
                                      record_trade (utc_date env) (utc_iso env) rm2
                                        (order_ticker ord) cost 0,
                                    cs_trades_executed := cs_trades_executed st2 + 1,
                                    cs_order_calls := cs_order_calls st2 + 1,
                                    cs_balance_calls := cs_balance_calls st2 + 1,
                                    cs_rm_calls := cs_rm_calls st2 @
                                      [RecordTrade (utc_date env) (utc_iso env)
                                         (order_ticker ord) cost 0]\<rparr>
                     in
                     (case balance_call env (cs_balance_calls st2) of
                        Inl e \<Rightarrow>
                          if is_KalshiAPIError e then
                            process_signals fmt env settings scan_only rest st3
                          else (Some e, st3)
                      | Inr b \<Rightarrow>
                          process_signals fmt env settings scan_only rest
                            (st3\<lparr>cs_balance := b\<rparr>))))"

text \<open>Step 3: the signals of the strategies that did not raise, in order.\<close>

fun collect_signals :: "(exn + TradeSignal list) list \<Rightarrow> TradeSignal list" where
  "collect_signals [] = []"
| "collect_signals (Inl e # runs) = collect_signals runs"
| "collect_signals (Inr signals # runs) = signals @ collect_signals runs"

text \<open>
  \<^verbatim>\<open>run_trading_cycle\<close>: the number of trades it returns or the exception it lets
  through, with the risk manager as the cycle leaves it and the calls made to it.
  \<^verbatim>\<open>list.sort(key=..., reverse=True)\<close> is a stable sort by descending key.
\<close>

definition run_trading_cycle ::
  "(float_format \<Rightarrow> real \<Rightarrow> string) \<Rightarrow> CycleEnv \<Rightarrow> Settings \<Rightarrow> bool \<Rightarrow> RiskManager
     \<Rightarrow> (exn + nat) \<times> RiskManager \<times> rm_op list" where
  "run_trading_cycle fmt env settings scan_only0 risk_manager =
     (let status = (case exchange_status env of Inl e \<Rightarrow> [] | Inr d \<Rightarrow> d);
          trading_active = dict_get status ''trading_active'' (JBool False);
          exchange_active = dict_get status ''exchange_active'' (JBool False)
      in
      case (case exchange_status env of
              Inl e \<Rightarrow> if is_KalshiAPIError e then Inr (Some scan_only0) else Inl e
            | Inr d \<Rightarrow>
                if \<not> truthy exchange_active then Inr None
                else if \<not> truthy trading_active then Inr (Some True)
                else Inr (Some scan_only0)) of
        Inl e \<Rightarrow> (Inl e, risk_manager, [])
      | Inr None \<Rightarrow> (Inr 0, risk_manager, [])
      | Inr (Some scan_only1) \<Rightarrow>
          (case (case balance_call env 0 of
                   Inl e \<Rightarrow> if is_KalshiAPIError e then Inr (0, True) else Inl e
                 | Inr b \<Rightarrow> Inr (b, scan_only1)) of
             Inl e \<Rightarrow> (Inl e, risk_manager, [])
           | Inr (balance, scan_only) \<Rightarrow>
               let all_signals = collect_signals (strategy_runs env) in
               if all_signals = [] then (Inr 0, risk_manager, [])
               else
                 let sorted_signals = sort_key (\<lambda>s. - expected_value s) all_signals;
                     (raised, st) =
                       process_signals fmt env settings scan_only sorted_signals
                         \<lparr>cs_risk_manager = risk_manager, cs_balance = balance,
                          cs_trades_executed = 0, cs_order_calls = 0, cs_balance_calls = 1,
                          cs_rm_calls = []\<rparr>
                 in
                 (case raised of
                    Some e \<Rightarrow> (Inl e, cs_risk_manager st, cs_rm_calls st)
                  | None \<Rightarrow> (Inr (cs_trades_executed st), cs_risk_manager st, cs_rm_calls st))))"

text \<open>
  The body of the main loop over successive cycles, each with its own answers: every
  cycle is called with the \<^verbatim>\<open>--scan-only\<close> flag of the command line, the daily summary
  follows a cycle that returned, and an exception of a cycle is logged. The gate on
  trading hours, the stop flag and the sleep between cycles are left out.
\<close>

fun run_cycles ::
  "(float_format \<Rightarrow> real \<Rightarrow> string) \<Rightarrow> Settings \<Rightarrow> bool \<Rightarrow> CycleEnv list \<Rightarrow> RiskManager
     \<Rightarrow> ((exn + nat) \<times> rm_op list) list \<times> RiskManager" where
  "run_cycles fmt settings args_scan_only [] risk_manager = ([], risk_manager)"
| "run_cycles fmt settings args_scan_only (env # envs) risk_manager =
     (let (res, rm1, calls) = run_trading_cycle fmt env settings args_scan_only risk_manager;
          rm2 = (case res of
                   Inl e \<Rightarrow> rm1
                 | Inr trades \<Rightarrow> fst (get_daily_summary (utc_date env) rm1));
          (results, rm3) = run_cycles fmt settings args_scan_only envs rm2
      in ((res, calls) # results, rm3))"


subsection \<open>Conditions of a cycle, and example cycles\<close>

text \<open>
  What the answers to a cycle's first two calls say: the exchange reports itself
  inactive; it is active with trading paused; a call raised; a call raised a
  \<open>KalshiAPIError\<close>.
\<close>

definition exchange_inactive :: "CycleEnv \<Rightarrow> bool" where
  "exchange_inactive env =
     (case exchange_status env of
        Inl e \<Rightarrow> False
      | Inr status \<Rightarrow> \<not> truthy (dict_get status ''exchange_active'' (JBool False)))"

definition trading_paused :: "CycleEnv \<Rightarrow> bool" where
  "trading_paused env =
     (case exchange_status env of
        Inl e \<Rightarrow> False
      | Inr status \<Rightarrow> truthy (dict_get status ''exchange_active'' (JBool False))
          \<and> \<not> truthy (dict_get status ''trading_active'' (JBool False)))"

definition call_failed :: "exn + 'a \<Rightarrow> bool" where
  "call_failed r = (case r of Inl e \<Rightarrow> True | Inr v \<Rightarrow> False)"

definition api_error :: "exn + 'a \<Rightarrow> bool" where
  "api_error r = (case r of Inl e \<Rightarrow> is_KalshiAPIError e | Inr v \<Rightarrow> False)"

text \<open>
  Example cycles in dry-run mode with one strategy and one signal: the exchange open,
  trading paused, and the balance call failing with a connection error.
\<close>

definition settings_example :: Settings where
  "settings_example = \<lparr>min_confidence = 55/100, min_expected_value = 5/100, dry_run = True\<rparr>"

definition env_open :: CycleEnv where
  "env_open =
     \<lparr>exchange_status = Inr [(''exchange_active'', JBool True), (''trading_active'', JBool True)],
      balance_call = (\<lambda>k. Inr 1000),
      strategy_runs = [Inr [signal_example]],
      order_call = (\<lambda>k ord. Inr []),
      utc_date = ''2026-02-11'',
      utc_iso = ''2026-02-11T15:00:00+00:00''\<rparr>"

definition env_paused :: CycleEnv where
  "env_paused =
     env_open\<lparr>exchange_status :=
       Inr [(''exchange_active'', JBool True), (''trading_active'', JBool False)]\<rparr>"

definition env_balance_down :: CycleEnv where
  "env_balance_down =
     env_open\<lparr>balance_call := (\<lambda>k. Inl (ConnectionError ''connection refused''))\<rparr>"

subsection \<open>The retry policy in closed form, and scripted answers\<close>




text \<open>
  A server that answers the attempts from a list, a response without text, and the
  example of an authenticated read that is rate limited once: a client as \<^verbatim>\<open>main\<close>
  builds it, a stand-in for the signature, and the transcript of the request.
\<close>

definition answers :: "outcome list \<Rightarrow> nat \<Rightarrow> outcome" where
  "answers outs k = (if k < length outs then outs ! k else RaisesOther ''no answer'')"

definition respond :: "int \<Rightarrow> (string \<times> json) list \<Rightarrow> outcome" where
  "respond code body = Responds \<lparr>status_code = code, json_body = Some body, text_body = []\<rparr>"

definition pss_example :: "unit \<Rightarrow> unit \<Rightarrow> string \<Rightarrow> string" where
  "pss_example key salt message = ''signed:'' @ message"

definition client_example :: "unit KalshiClient" where
  "client_example =
     KalshiClient_init 0 ''key-id'' (Some ()) ''https://demo-api.kalshi.co/trade-api/v2/'' 20 10"

definition transcript_example :: Transcript where
  "transcript_example =
     snd (snd (request pss_example () (answers [respond 429 [], respond 200 []])
       \<lparr>monotonic = 0, wall = 1000\<rparr> client_example ''GET'' ''/portfolio/balance'' True))"

text \<open>
  A formatter for the examples, a NO signal with a suggested price, and the manager
  after the two losing trades of the ledger test.
\<close>

definition fmt_example :: "float_format \<Rightarrow> real \<Rightarrow> string" where
  "fmt_example f x = ''?''"

definition signal_no_example :: TradeSignal where
  "signal_no_example = signal_example\<lparr>side := NO, suggested_price := Some 60\<rparr>"

definition rm_two_losses :: RiskManager where
  "rm_two_losses =
     record_trade ''2026-02-11'' ''2026-02-11T15:00:01+00:00''
       (record_trade ''2026-02-11'' ''2026-02-11T15:00:00+00:00'' rm_example ''T1'' 10 (- 10))
       ''T2'' 10 (- 10)"

section \<open>Properties of the risk manager\<close>

subsection \<open>Kelly criterion\<close>

text \<open>
  Claim C5. For every \<open>p\<close> in \<open>(0,1)\<close> and \<open>b > 0\<close>, \<open>kelly_criterion\<close> returns
  \<open>max(0, (p\<cdot>b - (1 - p)) / b)\<close> times the configured Kelly fraction, and it returns 0 for
  every input outside that domain. With a Kelly fraction in \<open>(0,1]\<close>, as the configuration
  is specified, the result is therefore non-negative, and it is 0 exactly when
  \<open>p \<le> 1 / (1 + b)\<close>.
\<close>

theorem kelly_criterion_spec:
  "kelly_criterion rm p b =
     (if 0 < p \<and> p < 1 \<and> 0 < b then max 0 ((p * b - (1 - p)) / b) * kelly_fraction rm else 0)
   \<and> (0 < p \<and> p < 1 \<and> 0 < b \<and> 0 < kelly_fraction rm \<longrightarrow>
        0 \<le> kelly_criterion rm p b \<and> (kelly_criterion rm p b = 0 \<longleftrightarrow> p \<le> 1 / (1 + b)))"
proof -
  have eq: "kelly_criterion rm p b =
     (if 0 < p \<and> p < 1 \<and> 0 < b then max 0 ((p * b - (1 - p)) / b) * kelly_fraction rm else 0)"
    by (auto simp: kelly_criterion_def Let_def)
  have rest: "0 \<le> kelly_criterion rm p b \<and> (kelly_criterion rm p b = 0 \<longleftrightarrow> p \<le> 1 / (1 + b))"
    if dom: "0 < p" "p < 1" "0 < b" and kf: "0 < kelly_fraction rm"
  proof -
    have k: "kelly_criterion rm p b = max 0 ((p * b - (1 - p)) / b) * kelly_fraction rm"
      using eq dom by simp
    have nonneg: "0 \<le> kelly_criterion rm p b"
      unfolding k using kf by simp
    have "(kelly_criterion rm p b = 0) = (max 0 ((p * b - (1 - p)) / b) = 0)"
      unfolding k using kf by simp
    also have "\<dots> = ((p * b - (1 - p)) / b \<le> 0)"
      by (simp add: max_def)
    also have "\<dots> = (p * b - (1 - p) \<le> 0)"
      using dom(3) by (simp add: divide_le_0_iff)
    also have "\<dots> = (p * (1 + b) \<le> 1)"
      by (simp add: algebra_simps)
    also have "\<dots> = (p \<le> 1 / (1 + b))"
      using dom(3) by (simp add: pos_le_divide_eq)
    finally show ?thesis using nonneg by simp
  qed
  show ?thesis using eq rest by blast
qed

text \<open>
  The examples of the test suite, with the half-Kelly configuration: an edge gives 0.10,
  no edge and a negative edge give 0, and certainty (\<open>p = 1\<close>) gives 0.
\<close>

theorem kelly_criterion_spec_witness:
  "(0::real) < 6/10 \<and> (6/10::real) < 1 \<and> (0::real) < 1 \<and> 0 < kelly_fraction rm_example
   \<and> 0 \<le> kelly_criterion rm_example (6/10) 1
   \<and> kelly_criterion rm_example (6/10) 1 = 1/10
   \<and> \<not> ((6/10::real) \<le> 1 / (1 + 1))
   \<and> kelly_criterion rm_example (1/2) 1 = 0
   \<and> kelly_criterion rm_example (3/10) 1 = 0
   \<and> kelly_criterion rm_example 1 1 = 0"
  using kelly_criterion_spec [of rm_example "6/10" 1] kelly_criterion_spec [of rm_example "1/2" 1]
    kelly_criterion_spec [of rm_example "3/10" 1] kelly_criterion_spec [of rm_example 1 1]
  by (simp add: rm_example_def RiskManager_init_def)

subsection \<open>Position sizing\<close>

lemma size_zero_guard:
  "cents \<le> 0 \<or> balance \<le> 0 \<Longrightarrow>
   calculate_position_size today rm sg balance cents = (reset_daily_if_needed today rm, 0)"
  by (simp add: calculate_position_size_def Let_def)

lemma size_zero_profit:
  "0 < cents \<Longrightarrow> 0 < balance \<Longrightarrow> 1 - real_of_int cents / 100 \<le> 0 \<Longrightarrow>
   calculate_position_size today rm sg balance cents = (reset_daily_if_needed today rm, 0)"
  by (simp add: calculate_position_size_def Let_def)

lemma size_main:
  assumes "0 < cents" "0 < balance" "\<not> 1 - real_of_int cents / 100 \<le> 0"
  shows "calculate_position_size today rm sg balance cents =
    (reset_daily_if_needed today rm,
     max 0 (min (py_int (balance * kelly_criterion (reset_daily_if_needed today rm)
                          (estimated_probability sg)
                          ((1 - real_of_int cents / 100) / (real_of_int cents / 100))
                        / (real_of_int cents / 100)))
           (min (max_position_size (reset_daily_if_needed today rm))
             (min (py_int (max_trade_cost (reset_daily_if_needed today rm)
                      / (real_of_int cents / 100)))
               (min (py_int (max 0 (balance
                          * (max_portfolio_exposure_pct (reset_daily_if_needed today rm) / 100)
                        - sum_list (dict_values (open_positions (reset_daily_if_needed today rm))))
                      / (real_of_int cents / 100)))
                    (py_int (max 0 (max_daily_loss (reset_daily_if_needed today rm)
                        - \<bar>min 0 (total_pnl (daily_pnl (reset_daily_if_needed today rm)))\<bar>)
                      / (real_of_int cents / 100))))))))"
proof -
  have c: "0 < real_of_int cents / 100" using assms(1) by simp
  have g: "\<not> (cents \<le> 0 \<or> balance \<le> 0)" using assms by simp
  show ?thesis
    unfolding calculate_position_size_def Let_def
    by (simp only: g c assms(3) if_False if_True)
qed

lemma size_fst:
  "fst (calculate_position_size today rm sg balance cents) = reset_daily_if_needed today rm"
proof (cases "cents \<le> 0 \<or> balance \<le> 0")
  case True
  then show ?thesis by (simp add: size_zero_guard)
next
  case False
  then have pos: "0 < cents" "0 < balance" by simp_all
  show ?thesis
  proof (cases "1 - real_of_int cents / 100 \<le> 0")
    case True
    then show ?thesis using pos by (simp add: size_zero_profit)
  next
    case False
    show ?thesis unfolding size_main [OF pos False] by (rule fst_conv)
  qed
qed





lemma example_reset: "reset_daily_if_needed ''2026-02-11'' rm_example = rm_example"
  by (simp add: reset_daily_if_needed_def rm_example_def RiskManager_init_def DailyPnL_new_def)

lemma example_size:
  "snd (calculate_position_size ''2026-02-11'' rm_example signal_example 1000 50) = 50"
proof -
  have k: "kelly_criterion rm_example (7/10) 1 = 1/5"
    by (simp add: kelly_criterion_def rm_example_def RiskManager_init_def)
  have t: "total_pnl (daily_pnl rm_example) = 0"
    by (simp add: total_pnl_def rm_example_def RiskManager_init_def DailyPnL_new_def)
  have f: "max_position_size rm_example = 100" "max_trade_cost rm_example = 25"
    "max_portfolio_exposure_pct rm_example = 20" "max_daily_loss rm_example = 50"
    "open_positions rm_example = []"
    by (simp_all add: rm_example_def RiskManager_init_def)
  have p: "estimated_probability signal_example = 7/10"
    by (simp add: signal_example_def)
  show ?thesis
    by (simp add: size_main example_reset k t f p dict_values_def py_int_def)
qed




subsection \<open>Rollover and frame lemmas\<close>

lemma reset_open_positions [simp]:
  "open_positions (reset_daily_if_needed today rm) = open_positions rm"
  by (simp add: reset_daily_if_needed_def)

lemma reset_config [simp]:
  "max_daily_loss (reset_daily_if_needed today rm) = max_daily_loss rm"
  "max_position_size (reset_daily_if_needed today rm) = max_position_size rm"
  "max_trade_cost (reset_daily_if_needed today rm) = max_trade_cost rm"
  "max_portfolio_exposure_pct (reset_daily_if_needed today rm) = max_portfolio_exposure_pct rm"
  "kelly_fraction (reset_daily_if_needed today rm) = kelly_fraction rm"
  by (simp_all add: reset_daily_if_needed_def)

lemma reset_date [simp]: "date (daily_pnl (reset_daily_if_needed today rm)) = today"
  by (simp add: reset_daily_if_needed_def DailyPnL_new_def)

lemma reset_same_day: "date (daily_pnl rm) = today \<Longrightarrow> reset_daily_if_needed today rm = rm"
  by (simp add: reset_daily_if_needed_def)

lemma reset_new_day:
  "date (daily_pnl rm) \<noteq> today \<Longrightarrow>
   reset_daily_if_needed today rm = rm\<lparr>daily_pnl := DailyPnL_new today, trades_today := []\<rparr>"
  by (simp add: reset_daily_if_needed_def)

lemma reset_unrealized:
  "unrealized_pnl (daily_pnl rm) = 0 \<Longrightarrow>
   unrealized_pnl (daily_pnl (reset_daily_if_needed today rm)) = 0"
  by (simp add: reset_daily_if_needed_def DailyPnL_new_def)

lemma validate_fst:
  "fst (validate_trade fmt today rm sg balance mc mev) = reset_daily_if_needed today rm"
  by (simp add: validate_trade_def Let_def)

lemma build_fst:
  "fst (build_order today rm sg balance) =
     (if cost_cents_of sg \<le> 0 \<or> cost_cents_of sg \<ge> 100 then rm
      else reset_daily_if_needed today rm)"
  using size_fst [of today rm sg balance "cost_cents_of sg"]
  by (simp add: build_order_def Let_def split_def)

lemma summary_fst: "fst (get_daily_summary today rm) = reset_daily_if_needed today rm"
  by (simp add: get_daily_summary_def Let_def)

lemma record_daily:
  "daily_pnl (record_trade today ts rm tkr cost pnl) =
     (let d = daily_pnl (reset_daily_if_needed today rm) in
      d\<lparr>trades_count := trades_count d + 1, realized_pnl := realized_pnl d + pnl,
        wins := (if pnl > 0 then wins d + 1 else wins d),
        losses := (if pnl > 0 then losses d else if pnl < 0 then losses d + 1 else losses d)\<rparr>)"
  by (simp add: record_trade_def Let_def)

lemma record_open_positions:
  "open_positions (record_trade today ts rm tkr cost pnl) =
     dict_set (open_positions rm) tkr (dict_get (open_positions rm) tkr 0 + cost)"
  by (simp add: record_trade_def Let_def)

lemma update_daily [simp]: "daily_pnl (update_position rm tkr e) = daily_pnl rm"
  by (simp add: update_position_def)

lemma step_unrealized:
  "unrealized_pnl (daily_pnl rm) = 0 \<Longrightarrow> unrealized_pnl (daily_pnl (rm_step fmt rm op)) = 0"
  by (cases op) (simp_all add: size_fst validate_fst build_fst summary_fst record_daily
      reset_unrealized Let_def)

lemma run_unrealized:
  "unrealized_pnl (daily_pnl rm) = 0 \<Longrightarrow>
   unrealized_pnl (daily_pnl (foldl (rm_step fmt) rm ops)) = 0"
  by (induction ops arbitrary: rm) (simp_all add: step_unrealized)

lemma init_unrealized: "unrealized_pnl (daily_pnl (RiskManager_init d a b c e f)) = 0"
  by (simp add: RiskManager_init_def DailyPnL_new_def)

lemma step_date:
  "access_date op = Some d \<Longrightarrow> date (daily_pnl (rm_step fmt rm op)) = d"
  by (cases op) (auto simp: size_fst validate_fst build_fst summary_fst record_daily Let_def
      split: if_splits)

lemma rollovers_same_day:
  "\<forall>op \<in> set ops. access_date op = Some d \<Longrightarrow>
   rollovers fmt rm ops = (if ops \<noteq> [] \<and> date (daily_pnl rm) \<noteq> d then 1 else 0)"
proof (induction ops arbitrary: rm)
  case Nil
  then show ?case by simp
next
  case (Cons op ops)
  have a: "access_date op = Some d" using Cons.prems by simp
  have "date (daily_pnl (rm_step fmt rm op)) = d" using a by (rule step_date)
  then have "rollovers fmt (rm_step fmt rm op) ops = 0"
    using Cons.IH [of "rm_step fmt rm op"] Cons.prems by simp
  then show ?case using a by simp
qed


lemma validate_cases:
  fixes fmt today rm sg balance mc mev
  defines "self \<equiv> reset_daily_if_needed today rm"
  defines "res \<equiv> validate_trade fmt today rm sg balance mc mev"
  defines "daily \<equiv> total_pnl (daily_pnl self) \<le> - max_daily_loss self"
  defines "full \<equiv> sum_list (dict_values (open_positions self))
                    \<ge> balance * (max_portfolio_exposure_pct self / 100)"
  shows "daily \<Longrightarrow> res = (self, False,
            ''Daily loss limit reached ($'' @ fmt F2 (total_pnl (daily_pnl self)) @ '')'')"
    and "\<not> daily \<Longrightarrow> confidence sg < mc \<Longrightarrow> res = (self, False,
            ''Confidence too low ('' @ fmt F2 (confidence sg) @ '' < '' @ fmt Plain mc @ '')'')"
    and "\<not> daily \<Longrightarrow> \<not> confidence sg < mc \<Longrightarrow> expected_value sg < mev \<Longrightarrow> res = (self, False,
            ''Expected value too low ('' @ fmt F4 (expected_value sg) @ '' < ''
              @ fmt Plain mev @ '')'')"
    and "\<not> daily \<Longrightarrow> \<not> confidence sg < mc \<Longrightarrow> \<not> expected_value sg < mev \<Longrightarrow> balance \<le> 0 \<Longrightarrow>
           res = (self, False, ''Insufficient balance'')"
    and "\<not> daily \<Longrightarrow> \<not> confidence sg < mc \<Longrightarrow> \<not> expected_value sg < mev \<Longrightarrow> \<not> balance \<le> 0 \<Longrightarrow>
           full \<Longrightarrow> res = (self, False,
            ''Portfolio exposure limit reached ($''
              @ fmt F2 (sum_list (dict_values (open_positions self))) @ '' >= $''
              @ fmt F2 (balance * (max_portfolio_exposure_pct self / 100)) @ '')'')"
    and "\<not> daily \<Longrightarrow> \<not> confidence sg < mc \<Longrightarrow> \<not> expected_value sg < mev \<Longrightarrow> \<not> balance \<le> 0 \<Longrightarrow>
           \<not> full \<Longrightarrow> res = (self, True, ''Trade approved'')"
  unfolding res_def validate_trade_def Let_def self_def daily_def full_def
  by simp_all

subsection \<open>Trade validation\<close>



lemma example_fields:
  "max_position_size rm_example = 100" "max_trade_cost rm_example = 25"
  "max_portfolio_exposure_pct rm_example = 20" "max_daily_loss rm_example = 50"
  "kelly_fraction rm_example = 1/2"
  "open_positions rm_example = []" "trades_today rm_example = []"
  "daily_pnl rm_example = DailyPnL_new ''2026-02-11''"
  by (simp_all add: rm_example_def RiskManager_init_def)

lemma new_fields:
  "date (DailyPnL_new d) = d" "realized_pnl (DailyPnL_new d) = 0"
  "unrealized_pnl (DailyPnL_new d) = 0" "trades_count (DailyPnL_new d) = 0"
  "wins (DailyPnL_new d) = 0" "losses (DailyPnL_new d) = 0"
  by (simp_all add: DailyPnL_new_def)


subsection \<open>Unrealized P&L\<close>

text \<open>
  Claim C10. No operation of the risk manager writes \<open>unrealized_pnl\<close>: after every
  sequence of operations on a manager as its constructor builds it, the field is 0
  and \<open>total_pnl\<close> (what the daily-loss check, the daily-loss sizing bound and the
  remaining-budget field read) equals \<open>realized_pnl\<close>; so the remaining daily-loss
  budget of the summary is the daily-loss limit plus the realized P&L.
\<close>

theorem no_unrealized_pnl:
  "unrealized_pnl (daily_pnl (foldl (rm_step fmt) (RiskManager_init d0 mdl mps mtc mpe kf) ops)) = 0
   \<and> total_pnl (daily_pnl (foldl (rm_step fmt) (RiskManager_init d0 mdl mps mtc mpe kf) ops))
       = realized_pnl (daily_pnl (foldl (rm_step fmt) (RiskManager_init d0 mdl mps mtc mpe kf) ops))
   \<and> remaining_daily_loss_budget (snd (get_daily_summary today
         (foldl (rm_step fmt) (RiskManager_init d0 mdl mps mtc mpe kf) ops)))
       = mdl + realized_pnl (daily_pnl (reset_daily_if_needed today
           (foldl (rm_step fmt) (RiskManager_init d0 mdl mps mtc mpe kf) ops)))"
proof -
  let ?rm = "foldl (rm_step fmt) (RiskManager_init d0 mdl mps mtc mpe kf) ops"
  have u: "unrealized_pnl (daily_pnl ?rm) = 0"
    by (rule run_unrealized [OF init_unrealized])
  have m: "max_daily_loss (foldl (rm_step fmt) rm xs) = max_daily_loss rm" for rm xs
  proof (induction xs arbitrary: rm)
    case Nil
    show ?case by simp
  next
    case (Cons x xs)
    have "max_daily_loss (rm_step fmt rm x) = max_daily_loss rm"
      by (cases x) (simp_all add: size_fst validate_fst build_fst summary_fst
          record_trade_def update_position_def Let_def)
    then show ?case using Cons.IH [of "rm_step fmt rm x"] by simp
  qed
  have m0: "max_daily_loss ?rm = mdl"
    unfolding m by (simp add: RiskManager_init_def)
  show ?thesis
    using u reset_unrealized [OF u, of today] m0
    by (simp add: total_pnl_def get_daily_summary_def Let_def)
qed

subsection \<open>Order construction\<close>

lemma build_none_price:
  "cost_cents_of sg \<le> 0 \<or> cost_cents_of sg \<ge> 100 \<Longrightarrow>
   build_order today rm sg balance = (rm, None)"
  by (simp add: build_order_def Let_def)

lemma build_none_size:
  "\<not> (cost_cents_of sg \<le> 0 \<or> cost_cents_of sg \<ge> 100) \<Longrightarrow>
   snd (calculate_position_size today rm sg balance (cost_cents_of sg)) \<le> 0 \<Longrightarrow>
   build_order today rm sg balance = (reset_daily_if_needed today rm, None)"
  using size_fst [of today rm sg balance "cost_cents_of sg"]
  by (simp add: build_order_def Let_def split_def)

lemma build_some:
  "\<not> (cost_cents_of sg \<le> 0 \<or> cost_cents_of sg \<ge> 100) \<Longrightarrow>
   \<not> snd (calculate_position_size today rm sg balance (cost_cents_of sg)) \<le> 0 \<Longrightarrow>
   build_order today rm sg balance =
     (reset_daily_if_needed today rm,
      Some \<lparr>order_ticker = ticker sg, order_side = side sg, order_action = action sg,
            count = snd (calculate_position_size today rm sg balance (cost_cents_of sg)),
            order_type = LIMIT,
            yes_price = (if side sg = YES then Some (cost_cents_of sg) else None),
            no_price = (if side sg = NO then Some (cost_cents_of sg) else None),
            client_order_id = [], time_in_force = ''gtc'', buy_max_cost = None,
            post_only = True\<rparr>)"
  using size_fst [of today rm sg balance "cost_cents_of sg"]
  by (simp add: build_order_def Let_def split_def)

lemma payload_built:
  "to_api_payload
     \<lparr>order_ticker = t, order_side = YES, order_action = a, count = n, order_type = LIMIT,
      yes_price = Some c, no_price = None,
      client_order_id = [], time_in_force = ''gtc'', buy_max_cost = None, post_only = True\<rparr>
   = [(''ticker'', JStr t), (''side'', JStr ''yes''),
      (''action'', JStr (OrderAction_value a)), (''count'', JInt n), (''type'', JStr ''limit''),
      (''yes_price'', JInt c),
      (''time_in_force'', JStr ''gtc''), (''post_only'', JBool True)]"
  "to_api_payload
     \<lparr>order_ticker = t, order_side = NO, order_action = a, count = n, order_type = LIMIT,
      yes_price = None, no_price = Some c,
      client_order_id = [], time_in_force = ''gtc'', buy_max_cost = None, post_only = True\<rparr>
   = [(''ticker'', JStr t), (''side'', JStr ''no''),
      (''action'', JStr (OrderAction_value a)), (''count'', JInt n), (''type'', JStr ''limit''),
      (''no_price'', JInt c),
      (''time_in_force'', JStr ''gtc''), (''post_only'', JBool True)]"
  by (simp_all add: to_api_payload_def Let_def)

text \<open>
  Claim C7. \<open>build_order\<close> returns \<^verbatim>\<open>None\<close> exactly when the derived cost per contract is
  outside the open interval (0,100) cents or the computed size is not positive.
  Otherwise it returns a limit order of that size, post-only, with time in force
  \<open>gtc\<close>, whose payload holds exactly one price field, that of the signal's side:
  \<open>yes_price\<close> and no \<open>no_price\<close> for YES, \<open>no_price\<close> and no \<open>yes_price\<close> for NO.
\<close>

theorem build_order_spec:
  "let c = cost_cents_of sg;
       size = snd (calculate_position_size today rm sg balance c);
       res = snd (build_order today rm sg balance)
   in (res = None \<longleftrightarrow> c \<le> 0 \<or> c \<ge> 100 \<or> size \<le> 0)
    \<and> (\<forall>ord. res = Some ord \<longrightarrow>
          order_type ord = LIMIT \<and> post_only ord \<and> time_in_force ord = ''gtc''
          \<and> count ord = size \<and> 0 < count ord \<and> order_side ord = side sg
          \<and> to_api_payload ord =
              [(''ticker'', JStr (ticker sg)), (''side'', JStr (OrderSide_value (side sg))),
               (''action'', JStr (OrderAction_value (action sg))), (''count'', JInt size),
               (''type'', JStr ''limit''),
               (if side sg = YES then ''yes_price'' else ''no_price'', JInt c),
               (''time_in_force'', JStr ''gtc''), (''post_only'', JBool True)]
          \<and> map_of (to_api_payload ord) (if side sg = YES then ''yes_price'' else ''no_price'')
              = Some (JInt c)
          \<and> map_of (to_api_payload ord) (if side sg = YES then ''no_price'' else ''yes_price'')
              = None)"
proof (cases "cost_cents_of sg \<le> 0 \<or> cost_cents_of sg \<ge> 100")
  case True
  then show ?thesis unfolding Let_def build_none_price [OF True] by auto
next
  case price: False
  show ?thesis
  proof (cases "snd (calculate_position_size today rm sg balance (cost_cents_of sg)) \<le> 0")
    case True
    show ?thesis unfolding Let_def build_none_size [OF price True] using True by simp
  next
    case False
    show ?thesis
      unfolding Let_def build_some [OF price False] snd_conv
      using price False by (cases "side sg") (simp_all add: payload_built)
  qed
qed

lemma example_no_size:
  "snd (calculate_position_size ''2026-02-11'' rm_example signal_no_example 1000 60) = 41"
proof -
  have k: "kelly_criterion rm_example (7/10) (2/3) = 1/8"
    by (simp add: kelly_criterion_def rm_example_def RiskManager_init_def)
  have t: "total_pnl (daily_pnl rm_example) = 0"
    by (simp add: total_pnl_def example_fields new_fields)
  have p: "estimated_probability signal_no_example = 7/10"
    by (simp add: signal_no_example_def signal_example_def)
  show ?thesis
    by (simp add: size_main example_reset k t example_fields p dict_values_def py_int_def
        total_pnl_def new_fields)
qed

text \<open>
  A NO signal with a suggested price of 60 cents yields an order whose payload has
  \<open>no_price = 60\<close> and no \<open>yes_price\<close>; a suggested price of 100 cents yields no order.
\<close>

theorem build_order_spec_witness:
  "snd (build_order ''2026-02-11'' rm_example signal_no_example 1000) \<noteq> None
   \<and> to_api_payload (the (snd (build_order ''2026-02-11'' rm_example signal_no_example 1000)))
      = [(''ticker'', JStr ''TEST''), (''side'', JStr ''no''), (''action'', JStr ''buy''),
         (''count'', JInt 41), (''type'', JStr ''limit''), (''no_price'', JInt 60),
         (''time_in_force'', JStr ''gtc''), (''post_only'', JBool True)]
   \<and> map_of (to_api_payload (the (snd (build_order ''2026-02-11'' rm_example signal_no_example 1000))))
        ''yes_price'' = None
   \<and> snd (build_order ''2026-02-11'' rm_example (signal_example\<lparr>suggested_price := Some 100\<rparr>) 1000)
      = None"
proof -
  have c: "cost_cents_of signal_no_example = 60"
    by (simp add: cost_cents_of_def signal_no_example_def py_or_def)
  have c2: "cost_cents_of (signal_example\<lparr>suggested_price := Some 100\<rparr>) = 100"
    by (simp add: cost_cents_of_def signal_example_def py_or_def)
  have f: "side signal_no_example = NO" "ticker signal_no_example = ''TEST''"
    "action signal_no_example = BUY"
    by (simp_all add: signal_no_example_def signal_example_def)
  show ?thesis
    using build_order_spec [of signal_no_example "''2026-02-11''" rm_example 1000]
      build_order_spec [of "signal_example\<lparr>suggested_price := Some 100\<rparr>" "''2026-02-11''"
        rm_example 1000]
    by (auto simp: Let_def c c2 f example_no_size)
qed

subsection \<open>Daily rollover\<close>

lemma two_losses_fields:
  "daily_pnl rm_two_losses =
     \<lparr>date = ''2026-02-11'', realized_pnl = - 20, unrealized_pnl = 0, trades_count = 2,
      wins = 0, losses = 2\<rparr>"
  "open_positions rm_two_losses = [(''T1'', 10), (''T2'', 10)]"
  "max_daily_loss rm_two_losses = 50"
  by (simp_all add: rm_two_losses_def record_trade_def Let_def example_reset example_fields
      reset_daily_if_needed_def DailyPnL_new_def dict_get_def)

text \<open>
  Claim C4. The rollover of the daily ledger leaves the open-exposure map unchanged;
  when the ledger's date differs from the current UTC date it resets realized P&L and
  the trade, win and loss counters to zero, and when the dates agree it changes
  nothing. Over any run of ledger-accessing operations on one UTC day the reset runs
  exactly once, at the first of them, if the ledger starts on another date, and never
  otherwise. After two recorded trades with a P&L of -10 each the summary reports a
  realized P&L of -20 and 2 trades; the summary of the next UTC day reports 0 and 0,
  with the exposure map untouched.
\<close>

theorem daily_rollover_spec:
  "open_positions (reset_daily_if_needed today rm) = open_positions rm
   \<and> (date (daily_pnl rm) \<noteq> today \<longrightarrow>
        daily_pnl (reset_daily_if_needed today rm) =
          \<lparr>date = today, realized_pnl = 0, unrealized_pnl = 0, trades_count = 0, wins = 0,
           losses = 0\<rparr>)
   \<and> (date (daily_pnl rm) = today \<longrightarrow> reset_daily_if_needed today rm = rm)
   \<and> ((\<forall>op \<in> set ops. access_date op = Some today) \<longrightarrow>
        rollovers fmt rm ops = (if ops \<noteq> [] \<and> date (daily_pnl rm) \<noteq> today then 1 else 0))
   \<and> summary_realized_pnl (snd (get_daily_summary ''2026-02-11'' rm_two_losses)) = - 20
   \<and> summary_trades_count (snd (get_daily_summary ''2026-02-11'' rm_two_losses)) = 2
   \<and> summary_realized_pnl (snd (get_daily_summary ''2026-02-12'' rm_two_losses)) = 0
   \<and> summary_trades_count (snd (get_daily_summary ''2026-02-12'' rm_two_losses)) = 0
   \<and> open_positions (fst (get_daily_summary ''2026-02-12'' rm_two_losses))
        = open_positions rm_two_losses
   \<and> total_exposure (snd (get_daily_summary ''2026-02-12'' rm_two_losses)) = 20
   \<and> summary_open_positions (snd (get_daily_summary ''2026-02-12'' rm_two_losses)) = 2"
proof -
  have frame: "open_positions (reset_daily_if_needed today rm) = open_positions rm"
    by (rule reset_open_positions)
  have new: "date (daily_pnl rm) \<noteq> today \<longrightarrow>
        daily_pnl (reset_daily_if_needed today rm) =
          \<lparr>date = today, realized_pnl = 0, unrealized_pnl = 0, trades_count = 0, wins = 0,
           losses = 0\<rparr>"
    by (simp add: reset_daily_if_needed_def DailyPnL_new_def)
  have same: "date (daily_pnl rm) = today \<longrightarrow> reset_daily_if_needed today rm = rm"
    by (simp add: reset_daily_if_needed_def)
  have once: "(\<forall>op \<in> set ops. access_date op = Some today) \<longrightarrow>
        rollovers fmt rm ops = (if ops \<noteq> [] \<and> date (daily_pnl rm) \<noteq> today then 1 else 0)"
    using rollovers_same_day [of ops today fmt rm] by blast
  have ex: "summary_realized_pnl (snd (get_daily_summary ''2026-02-11'' rm_two_losses)) = - 20"
    "summary_trades_count (snd (get_daily_summary ''2026-02-11'' rm_two_losses)) = 2"
    "summary_realized_pnl (snd (get_daily_summary ''2026-02-12'' rm_two_losses)) = 0"
    "summary_trades_count (snd (get_daily_summary ''2026-02-12'' rm_two_losses)) = 0"
    "open_positions (fst (get_daily_summary ''2026-02-12'' rm_two_losses))
        = open_positions rm_two_losses"
    "total_exposure (snd (get_daily_summary ''2026-02-12'' rm_two_losses)) = 20"
    "summary_open_positions (snd (get_daily_summary ''2026-02-12'' rm_two_losses)) = 2"
    by (simp_all add: get_daily_summary_def Let_def reset_daily_if_needed_def two_losses_fields
        DailyPnL_new_def dict_values_def)
  show ?thesis using frame new same once ex by blast
qed

text \<open>
  The ledger of 11 February, accessed three times on 12 February: one rollover.
\<close>

theorem daily_rollover_spec_witness:
  "date (daily_pnl rm_two_losses) \<noteq> ''2026-02-12''
   \<and> daily_pnl (reset_daily_if_needed ''2026-02-12'' rm_two_losses) =
        \<lparr>date = ''2026-02-12'', realized_pnl = 0, unrealized_pnl = 0, trades_count = 0,
         wins = 0, losses = 0\<rparr>
   \<and> open_positions (reset_daily_if_needed ''2026-02-12'' rm_two_losses)
        = [(''T1'', 10), (''T2'', 10)]
   \<and> date (daily_pnl rm_two_losses) = ''2026-02-11''
   \<and> reset_daily_if_needed ''2026-02-11'' rm_two_losses = rm_two_losses
   \<and> access_date (Summary ''2026-02-12'') = Some ''2026-02-12''
   \<and> access_date (RecordTrade ''2026-02-12'' ''2026-02-12T00:00:05+00:00'' ''T3'' 5 0)
        = Some ''2026-02-12''
   \<and> rollovers fmt_example rm_two_losses
        [Summary ''2026-02-12'',
         RecordTrade ''2026-02-12'' ''2026-02-12T00:00:05+00:00'' ''T3'' 5 0,
         Summary ''2026-02-12''] = 1"
  using daily_rollover_spec [of "''2026-02-12''" rm_two_losses
      "[Summary ''2026-02-12'',
        RecordTrade ''2026-02-12'' ''2026-02-12T00:00:05+00:00'' ''T3'' 5 0,
        Summary ''2026-02-12'']" fmt_example]
    daily_rollover_spec [of "''2026-02-11''" rm_two_losses "[]" fmt_example]
  by (simp add: two_losses_fields)

section \<open>Properties of the API client\<close>

subsection \<open>The token bucket\<close>

lemma refill_fields [simp]:
  "max_per_second (refill self now) = max_per_second self"
  "last_refill (refill self now) = now"
  by (simp_all add: refill_def Let_def)







subsection \<open>Retries\<close>



lemma retry_loop_headers:
  "set (sends (snd (retry_loop base srv meth url headers attempts last_exception tr)))
     \<subseteq> set (sends tr) \<union> {s. sent_headers s = headers}"
proof (induction attempts arbitrary: last_exception tr)
  case Nil
  show ?case by simp
next
  case (Cons a rest)
  let ?s = "\<lparr>sent_attempt = a, sent_clock = clock tr, sent_method = meth, sent_url = url,
             sent_headers = headers\<rparr>"
  let ?tr1 = "tr\<lparr>sends := sends tr @ [?s]\<rparr>"
  have one: "set (sends ?tr1) \<subseteq> set (sends tr) \<union> {s. sent_headers s = headers}" by auto
  have rec: "set (sends (snd (retry_loop base srv meth url headers rest le
        (?tr1\<lparr>sleeps := sl, clock := clk\<rparr>))))
      \<subseteq> set (sends tr) \<union> {s. sent_headers s = headers}" for le sl clk
    using Cons.IH [of le "?tr1\<lparr>sleeps := sl, clock := clk\<rparr>"] by auto
  show ?case
    using one rec
    by (simp add: Let_def split: outcome.splits sum.splits option.splits)
qed

lemma upt3: "[0..<3] = [0, Suc 0, Suc (Suc 0)]"
  by (simp add: eval_nat_numeral upt_rec)


lemma request_transcript:
  "snd (snd (request pss salt srv clk self meth path authenticated)) =
     (case acquire (if upper meth \<in> set [''POST'', ''PUT'', ''DELETE'', ''PATCH'']
                    then write_limiter self else read_limiter self) (monotonic clk) [] of
        Inl (e, limiter) \<Rightarrow> \<lparr>sends = [], sleeps = [], clock = clk\<rparr>
      | Inr (limiter, now, slept) \<Rightarrow>
          snd (retry_loop (base_backoff self) srv (upper meth) (base_url self @ path)
                 (case private_key self of
                    Some key \<Rightarrow>
                      if authenticated then
                        get_auth_headers pss salt (wall clk + (now - monotonic clk)) (api_key self)
                          key (upper meth) (''/trade-api/v2'' @ path)
                      else [(''Content-Type'', ''application/json'')]
                  | None \<Rightarrow> [(''Content-Type'', ''application/json'')])
                 [0..<max_retries self] None
                 \<lparr>sends = [], sleeps = [],
                  clock = clk\<lparr>monotonic := now, wall := wall clk + (now - monotonic clk)\<rparr>\<rparr>))"
proof (cases "acquire (if upper meth \<in> set [''POST'', ''PUT'', ''DELETE'', ''PATCH'']
                    then write_limiter self else read_limiter self) (monotonic clk) []")
  case (Inl a)
  obtain e limiter where a: "a = (e, limiter)" by (cases a) auto
  show ?thesis
    unfolding request_def Let_def Inl a by (simp only: sum.case prod.case snd_conv)
next
  case (Inr b)
  obtain limiter now slept where b: "b = (limiter, now, slept)" by (cases b) auto
  show ?thesis
    unfolding request_def Let_def Inr b
    by (simp only: sum.case prod.case snd_conv split_def Clock.simps Clock.update_convs
        Clock.surjective [symmetric])
       (simp del: list.set insert_iff cong: if_cong option.case_cong)
qed




lemma retry_loop_first:
  "\<exists>more. sends (snd (retry_loop base srv meth url headers (a # rest) last_exception tr)) =
     sends tr @ \<lparr>sent_attempt = a, sent_clock = clock tr, sent_method = meth, sent_url = url,
                 sent_headers = headers\<rparr> # more"
proof -
  have grow: "\<exists>more. sends (snd (retry_loop base srv meth url headers attempts le t)) =
      sends t @ more" for attempts le t
  proof (induction attempts arbitrary: le t)
    case Nil
    show ?case by simp
  next
    case (Cons b bs)
    let ?t1 = "t\<lparr>sends := sends t @ [\<lparr>sent_attempt = b, sent_clock = clock t,
      sent_method = meth, sent_url = url, sent_headers = headers\<rparr>]\<rparr>"
    have rec: "\<exists>more. sends (snd (retry_loop base srv meth url headers bs le'
        (?t1\<lparr>sleeps := sl, clock := c\<rparr>))) = sends t @ more" for le' sl c
      using Cons.IH [of le' "?t1\<lparr>sleeps := sl, clock := c\<rparr>"] by auto
    show ?case
      using rec by (simp add: Let_def split: outcome.splits sum.splits option.splits)
  qed
  let ?s = "\<lparr>sent_attempt = a, sent_clock = clock tr, sent_method = meth, sent_url = url,
             sent_headers = headers\<rparr>"
  let ?t1 = "tr\<lparr>sends := sends tr @ [?s]\<rparr>"
  have rec: "\<exists>more. sends (snd (retry_loop base srv meth url headers rest le'
        (?t1\<lparr>sleeps := sl, clock := c\<rparr>))) = sends tr @ ?s # more" for le' sl c
    using grow [of rest le' "?t1\<lparr>sleeps := sl, clock := c\<rparr>"] by auto
  show ?thesis
    using rec by (simp add: Let_def split: outcome.splits sum.splits option.splits)
qed

text \<open>
  Claim C1, as the code has it. \<^verbatim>\<open>_request\<close> builds the headers once, before the retry
  loop: every attempt of a request is sent with the headers of its first attempt, and
  for an authenticated request with a private key these are the authentication headers
  computed from the clock of the first attempt.
\<close>

theorem request_signs_once:
  "(\<forall>s \<in> set (sends (snd (snd (request pss salt srv clk self meth path authenticated)))).
      sent_headers s =
        sent_headers (hd (sends (snd (snd (request pss salt srv clk self meth path
          authenticated))))))
   \<and> (authenticated \<and> private_key self = Some key
        \<and> sends (snd (snd (request pss salt srv clk self meth path authenticated))) \<noteq> [] \<longrightarrow>
      sent_headers (hd (sends (snd (snd (request pss salt srv clk self meth path
          authenticated))))) =
        get_auth_headers pss salt
          (wall (sent_clock (hd (sends (snd (snd (request pss salt srv clk self meth path
             authenticated)))))))
          (api_key self) key (upper meth) (''/trade-api/v2'' @ path))"
proof (cases "acquire (if upper meth \<in> set [''POST'', ''PUT'', ''DELETE'', ''PATCH'']
                    then write_limiter self else read_limiter self) (monotonic clk) []")
  case (Inl a)
  then have "sends (snd (snd (request pss salt srv clk self meth path authenticated))) = []"
    unfolding request_transcript by (cases a) simp
  then show ?thesis by simp
next
  case (Inr b)
  obtain limiter now slept where b: "b = (limiter, now, slept)" by (cases b) auto
  let ?H = "case private_key self of
                    Some key \<Rightarrow>
                      if authenticated then
                        get_auth_headers pss salt (wall clk + (now - monotonic clk)) (api_key self)
                          key (upper meth) (''/trade-api/v2'' @ path)
                      else [(''Content-Type'', ''application/json'')]
                  | None \<Rightarrow> [(''Content-Type'', ''application/json'')]"
  let ?tr0 = "\<lparr>sends = [], sleeps = [],
                  clock = clk\<lparr>monotonic := now, wall := wall clk + (now - monotonic clk)\<rparr>\<rparr>"
  let ?T = "snd (retry_loop (base_backoff self) srv (upper meth) (base_url self @ path) ?H
                 [0..<max_retries self] None ?tr0)"
  have T: "snd (snd (request pss salt srv clk self meth path authenticated)) = ?T"
    unfolding request_transcript Inr b by simp
  have all: "\<forall>s \<in> set (sends ?T). sent_headers s = ?H"
    using retry_loop_headers [of "base_backoff self" srv "upper meth" "base_url self @ path" ?H
        "[0..<max_retries self]" None ?tr0]
    by auto
  have one: "\<forall>s \<in> set (sends ?T). sent_headers s = sent_headers (hd (sends ?T))"
  proof (cases "sends ?T = []")
    case True
    then show ?thesis by simp
  next
    case False
    then have "hd (sends ?T) \<in> set (sends ?T)" by simp
    then show ?thesis using all by simp
  qed
  have two: "sent_headers (hd (sends ?T)) =
        get_auth_headers pss salt (wall (sent_clock (hd (sends ?T))))
          (api_key self) key (upper meth) (''/trade-api/v2'' @ path)"
    if a: "authenticated" "private_key self = Some key" and ne: "sends ?T \<noteq> []"
  proof (cases "[0..<max_retries self]")
    case Nil
    then show ?thesis using ne by simp
  next
    case (Cons k ks)
    obtain more where m: "sends ?T =
        \<lparr>sent_attempt = k, sent_clock = clock ?tr0, sent_method = upper meth,
          sent_url = base_url self @ path, sent_headers = ?H\<rparr> # more"
      using retry_loop_first [of "base_backoff self" srv "upper meth" "base_url self @ path" ?H
          k ks None ?tr0]
      unfolding Cons by auto
    show ?thesis unfolding m using a by simp
  qed
  show ?thesis unfolding T using one two by blast
qed

lemma upper_GET: "upper ''GET'' = ''GET''"
  by (simp add: upper_def upper_char_def)

lemma str_examples:
  "str_int (py_int 1000000) = ''1000000''"
  "str_int (py_int 1000500) = ''1000500''"
  by (simp_all add: py_int_def str_int_def str_nat.simps digit_char_def)

lemma client_example_fields:
  "read_limiter client_example = RateLimiter_init 0 20"
  "private_key client_example = Some ()"
  "api_key client_example = ''key-id''"
  "base_url client_example = ''https://demo-api.kalshi.co/trade-api/v2''"
  "max_retries client_example = 3"
  "base_backoff client_example = 1/2"
  by (simp_all add: client_example_def KalshiClient_init_def)

lemma acquire_example:
  "acquire (RateLimiter_init 0 20) 0 [] =
     Inr (\<lparr>max_per_second = 20, tokens = 19, last_refill = 0\<rparr>, 0, [])"
  by (subst acquire.simps) (simp add: RateLimiter_init_def refill_def Let_def)

lemma headers_example:
  "get_auth_headers pss_example () 1000 ''key-id'' () ''GET'' ''/trade-api/v2/portfolio/balance''
   = [(''KALSHI-ACCESS-KEY'', ''key-id''),
      (''KALSHI-ACCESS-SIGNATURE'', ''signed:1000000GET/trade-api/v2/portfolio/balance''),
      (''KALSHI-ACCESS-TIMESTAMP'', ''1000000''),
      (''Content-Type'', ''application/json'')]"
  by (simp add: get_auth_headers_def sign_request_def Let_def str_examples upper_GET
      pss_example_def)

lemma transcript_example_value:
  "transcript_example =
     \<lparr>sends =
        [\<lparr>sent_attempt = 0, sent_clock = \<lparr>monotonic = 0, wall = 1000\<rparr>, sent_method = ''GET'',
          sent_url = ''https://demo-api.kalshi.co/trade-api/v2/portfolio/balance'',
          sent_headers =
            [(''KALSHI-ACCESS-KEY'', ''key-id''),
             (''KALSHI-ACCESS-SIGNATURE'', ''signed:1000000GET/trade-api/v2/portfolio/balance''),
             (''KALSHI-ACCESS-TIMESTAMP'', ''1000000''),
             (''Content-Type'', ''application/json'')]\<rparr>,
         \<lparr>sent_attempt = 1, sent_clock = \<lparr>monotonic = 1/2, wall = 1000 + 1/2\<rparr>,
          sent_method = ''GET'',
          sent_url = ''https://demo-api.kalshi.co/trade-api/v2/portfolio/balance'',
          sent_headers =
            [(''KALSHI-ACCESS-KEY'', ''key-id''),
             (''KALSHI-ACCESS-SIGNATURE'', ''signed:1000000GET/trade-api/v2/portfolio/balance''),
             (''KALSHI-ACCESS-TIMESTAMP'', ''1000000''),
             (''Content-Type'', ''application/json'')]\<rparr>],
      sleeps = [1/2],
      clock = \<lparr>monotonic = 1/2, wall = 1000 + 1/2\<rparr>\<rparr>"
  unfolding transcript_example_def request_transcript
  by (simp add: upper_GET client_example_fields acquire_example headers_example upt3
      answers_def respond_def sleep_def Let_def)

text \<open>
  Claim C1, as stated, fails: the timestamp is not regenerated for a retry. An
  authenticated read that is answered 429 and then 200 sends its second attempt half a
  second later with the headers of the first, whose timestamp is the stale
  \<open>1000000\<close> and not the \<open>1000500\<close> of the clock at the second attempt.
\<close>

theorem retry_reuses_headers:
  "map sent_attempt (sends transcript_example) = [0, 1]
   \<and> wall (sent_clock (sends transcript_example ! 1)) = 1000 + 1/2
   \<and> map_of (sent_headers (sends transcript_example ! 1)) ''KALSHI-ACCESS-TIMESTAMP''
       = Some ''1000000''
   \<and> str_int (py_int (wall (sent_clock (sends transcript_example ! 1)) * 1000)) = ''1000500''
   \<and> sent_headers (sends transcript_example ! 1) = sent_headers (sends transcript_example ! 0)"
  by (simp add: transcript_example_value str_examples)

text \<open>The same request: its second attempt carries the headers built at the start.\<close>

theorem request_signs_once_witness:
  "sends transcript_example \<noteq> []
   \<and> sent_headers (sends transcript_example ! 1) = sent_headers (hd (sends transcript_example))
   \<and> sent_headers (hd (sends transcript_example)) =
       get_auth_headers pss_example () 1000 ''key-id'' () ''GET'' ''/trade-api/v2/portfolio/balance''"
  using request_signs_once [of pss_example "()" "answers [respond 429 [], respond 200 []]"
      "\<lparr>monotonic = 0, wall = 1000\<rparr>" client_example "''GET''" "''/portfolio/balance''" True "()"]
  by (simp add: transcript_example_value headers_example)

section \<open>Properties of the trading cycle\<close>

lemma scan_only_counts:
  "process_signals fmt env settings True signals st =
     (None, st\<lparr>cs_trades_executed := cs_trades_executed st + length signals\<rparr>)"
  by (induction signals arbitrary: st) simp_all

lemma cycle_inactive:
  "exchange_inactive env \<Longrightarrow>
   run_trading_cycle fmt env settings flag rm = (Inr 0, rm, [])"
  by (auto simp: run_trading_cycle_def exchange_inactive_def Let_def split: sum.splits)

lemma cycle_scan_only:
  assumes "\<not> exchange_inactive env"
    and "call_failed (exchange_status env) \<longrightarrow> api_error (exchange_status env)"
    and "call_failed (balance_call env 0) \<longrightarrow> api_error (balance_call env 0)"
    and "trading_paused env \<or> api_error (balance_call env 0) \<or> flag"
  shows "run_trading_cycle fmt env settings flag rm =
     (Inr (length (collect_signals (strategy_runs env))), rm, [])"
proof -
  have fin: "(if sigs = [] then (Inr 0, rm, [])
      else (case process_signals fmt env settings True (sort_key (\<lambda>s. - expected_value s) sigs)
                  \<lparr>cs_risk_manager = rm, cs_balance = b, cs_trades_executed = 0,
                   cs_order_calls = 0, cs_balance_calls = 1, cs_rm_calls = []\<rparr> of
              (raised, st) \<Rightarrow>
                (case raised of
                   Some e \<Rightarrow> (Inl e, cs_risk_manager st, cs_rm_calls st)
                 | None \<Rightarrow> (Inr (cs_trades_executed st), cs_risk_manager st, cs_rm_calls st))))
     = (Inr (length sigs), rm, [])" for sigs b
    by (simp add: scan_only_counts)
  show ?thesis
    using assms
    by (auto simp: run_trading_cycle_def exchange_inactive_def trading_paused_def
        call_failed_def api_error_def Let_def fin scan_only_counts split: sum.splits)
qed

lemma cycle_balance_raises:
  assumes "\<not> exchange_inactive env"
    and "call_failed (exchange_status env) \<longrightarrow> api_error (exchange_status env)"
    and "balance_call env 0 = Inl e" and "\<not> is_KalshiAPIError e"
  shows "run_trading_cycle fmt env settings flag rm = (Inl e, rm, [])"
  using assms
  by (auto simp: run_trading_cycle_def exchange_inactive_def call_failed_def api_error_def
      Let_def split: sum.splits)

lemma cycle_status_raises:
  assumes "exchange_status env = Inl e" and "\<not> is_KalshiAPIError e"
  shows "run_trading_cycle fmt env settings flag rm = (Inl e, rm, [])"
  using assms by (simp add: run_trading_cycle_def Let_def)

lemma env_open_fields:
  "exchange_status env_open =
     Inr [(''exchange_active'', JBool True), (''trading_active'', JBool True)]"
  "balance_call env_open k = Inr 1000"
  "strategy_runs env_open = [Inr [signal_example]]"
  "utc_date env_open = ''2026-02-11''"
  by (simp_all add: env_open_def)

lemma example_validate:
  "validate_trade fmt_example ''2026-02-11'' rm_example signal_example 1000 (11/20) (1/20)
     = (rm_example, True, ''Trade approved'')"
proof -
  have s: "confidence signal_example = 8/10" "expected_value signal_example = 15/100"
    by (simp_all add: signal_example_def)
  show ?thesis
    using validate_cases(6) [of "''2026-02-11''" rm_example signal_example "11/20" "1/20" 1000
        fmt_example]
    by (simp add: example_reset example_fields new_fields total_pnl_def s dict_values_def)
qed

lemma example_build:
  "fst (build_order ''2026-02-11'' rm_example signal_example 1000) = rm_example
   \<and> snd (build_order ''2026-02-11'' rm_example signal_example 1000) \<noteq> None"
proof -
  have c: "cost_cents_of signal_example = 50"
    by (simp add: cost_cents_of_def signal_example_def py_or_def py_int_def)
  have p: "\<not> (cost_cents_of signal_example \<le> 0 \<or> cost_cents_of signal_example \<ge> 100)"
    unfolding c by simp
  have n: "\<not> snd (calculate_position_size ''2026-02-11'' rm_example signal_example 1000
      (cost_cents_of signal_example)) \<le> 0"
    unfolding c example_size by simp
  show ?thesis unfolding build_some [OF p n] by (simp add: example_reset)
qed

lemma example_open_cycle:
  "run_trading_cycle fmt_example env_open settings_example False rm_example =
     (Inr 1, rm_example,
      [Validate ''2026-02-11'' signal_example 1000 (55/100) (5/100),
       Build ''2026-02-11'' signal_example 1000])"
proof -
  obtain ord where b: "build_order ''2026-02-11'' rm_example signal_example 1000
      = (rm_example, Some ord)"
    using example_build by (cases "build_order ''2026-02-11'' rm_example signal_example 1000") auto
  show ?thesis
    by (simp add: run_trading_cycle_def Let_def env_open_fields dict_get_def settings_example_def
        example_validate b)
qed

text \<open>
  Claim C9, as the code has it. When the exchange-status answer reports the exchange
  inactive, the cycle returns 0 trades, processes no signal and leaves the risk manager
  alone. When the status and balance calls return or raise a \<open>KalshiAPIError\<close>, and
  trading is paused or the balance call raised a \<open>KalshiAPIError\<close> or the caller asked
  for scan-only mode, the cycle counts every signal as a would-be trade without
  calling the risk manager. Any other exception of the status or balance call leaves
  the cycle. The forced mode lasts for the cycle: the next cycle is called with the
  caller's flag again, and trades through the risk manager.
\<close>

theorem run_trading_cycle_spec:
  "(exchange_inactive env \<longrightarrow> run_trading_cycle fmt env settings flag rm = (Inr 0, rm, []))
   \<and> (\<not> exchange_inactive env
        \<and> (call_failed (exchange_status env) \<longrightarrow> api_error (exchange_status env))
        \<and> (call_failed (balance_call env 0) \<longrightarrow> api_error (balance_call env 0))
        \<and> (trading_paused env \<or> api_error (balance_call env 0) \<or> flag) \<longrightarrow>
       run_trading_cycle fmt env settings flag rm =
         (Inr (length (collect_signals (strategy_runs env))), rm, []))
   \<and> process_signals fmt env settings True signals st =
       (None, st\<lparr>cs_trades_executed := cs_trades_executed st + length signals\<rparr>)
   \<and> (\<forall>e. \<not> exchange_inactive env
        \<and> (call_failed (exchange_status env) \<longrightarrow> api_error (exchange_status env))
        \<and> balance_call env 0 = Inl e \<and> \<not> is_KalshiAPIError e \<longrightarrow>
       run_trading_cycle fmt env settings flag rm = (Inl e, rm, []))
   \<and> (\<forall>e. exchange_status env = Inl e \<and> \<not> is_KalshiAPIError e \<longrightarrow>
       run_trading_cycle fmt env settings flag rm = (Inl e, rm, []))
   \<and> fst (run_cycles fmt_example settings_example False [env_paused, env_open] rm_example) =
       [(Inr 1, []),
        (Inr 1, [Validate ''2026-02-11'' signal_example 1000 (55/100) (5/100),
                 Build ''2026-02-11'' signal_example 1000])]"
proof -
  have paused: "run_trading_cycle fmt_example env_paused settings_example False rm_example
      = (Inr 1, rm_example, [])"
    using cycle_scan_only [of env_paused False fmt_example settings_example rm_example]
    by (simp add: env_paused_def env_open_def exchange_inactive_def trading_paused_def
        call_failed_def api_error_def dict_get_def)
  have d: "utc_date env_paused = ''2026-02-11''" "utc_date env_open = ''2026-02-11''"
    by (simp_all add: env_paused_def env_open_def)
  have s: "fst (get_daily_summary ''2026-02-11'' rm_example) = rm_example"
    by (simp add: summary_fst example_reset)
  have two: "fst (run_cycles fmt_example settings_example False [env_paused, env_open] rm_example) =
       [(Inr 1, []),
        (Inr 1, [Validate ''2026-02-11'' signal_example 1000 (55/100) (5/100),
                 Build ''2026-02-11'' signal_example 1000])]"
    by (simp add: paused example_open_cycle s d)
  show ?thesis
    using cycle_inactive [of env fmt settings flag rm]
      cycle_scan_only [of env flag fmt settings rm]
      scan_only_counts [of fmt env settings signals st]
      cycle_balance_raises [of env _ fmt settings flag rm]
      cycle_status_raises [of env _ fmt settings flag rm]
      two
    by blast
qed

text \<open>
  Claim C9, as stated, fails for a balance fetch that fails with a connection error
  (what \<^verbatim>\<open>_request\<close> raises once its attempts are used up): the cycle is not forced into
  scan-only mode, where it would return 1 for its one signal, but raises the error.
\<close>

theorem balance_outage_aborts_cycle:
  "call_failed (balance_call env_balance_down 0)
   \<and> \<not> exchange_inactive env_balance_down
   \<and> collect_signals (strategy_runs env_balance_down) = [signal_example]
   \<and> run_trading_cycle fmt_example env_balance_down settings_example False rm_example =
       (Inl (ConnectionError ''connection refused''), rm_example, [])
   \<and> run_trading_cycle fmt_example env_balance_down settings_example False rm_example \<noteq>
       (Inr 1, rm_example, [])"
  by (simp add: env_balance_down_def env_open_def call_failed_def exchange_inactive_def
      dict_get_def run_trading_cycle_def Let_def)

text \<open>
  The four answers at the example cycle: exchange inactive, trading paused, balance
  refused by the API, balance unreachable.
\<close>

theorem run_trading_cycle_spec_witness:
  "exchange_inactive (env_open\<lparr>exchange_status := Inr [(''exchange_active'', JBool False)]\<rparr>)
   \<and> run_trading_cycle fmt_example
        (env_open\<lparr>exchange_status := Inr [(''exchange_active'', JBool False)]\<rparr>)
        settings_example False rm_example = (Inr 0, rm_example, [])
   \<and> trading_paused env_paused
   \<and> run_trading_cycle fmt_example env_paused settings_example False rm_example =
        (Inr 1, rm_example, [])
   \<and> api_error (balance_call
        (env_open\<lparr>balance_call := (\<lambda>k. Inl (KalshiAPIError 401 (JStr ''unauthorized'') []))\<rparr>) 0)
   \<and> run_trading_cycle fmt_example
        (env_open\<lparr>balance_call := (\<lambda>k. Inl (KalshiAPIError 401 (JStr ''unauthorized'') []))\<rparr>)
        settings_example False rm_example = (Inr 1, rm_example, [])
   \<and> run_trading_cycle fmt_example env_balance_down settings_example False rm_example =
        (Inl (ConnectionError ''connection refused''), rm_example, [])"
  using
    run_trading_cycle_spec [of "env_open\<lparr>exchange_status := Inr [(''exchange_active'', JBool False)]\<rparr>"
      fmt_example settings_example False rm_example "[]"]
    run_trading_cycle_spec [of env_paused fmt_example settings_example False rm_example "[]"]
    run_trading_cycle_spec [of
      "env_open\<lparr>balance_call := (\<lambda>k. Inl (KalshiAPIError 401 (JStr ''unauthorized'') []))\<rparr>"
      fmt_example settings_example False rm_example "[]"]
    run_trading_cycle_spec [of env_balance_down fmt_example settings_example False rm_example "[]"]
  by (simp add: env_paused_def env_balance_down_def env_open_def exchange_inactive_def
      trading_paused_def call_failed_def api_error_def dict_get_def)

end
